theory Spec2Isabelle
  imports Complex_Main
begin

section \<open>Time, JavaScript values and HTTP responses\<close>

text \<open>
  A timestamp is a number of milliseconds since the epoch, the unit of JavaScript's
  \<^verbatim>\<open>Date.now()\<close>. PostgreSQL's \<^verbatim>\<open>NOW()\<close> is read on the same scale (its microsecond
  digits are not modelled). Every statement of one request reads the clock at the same
  instant, except where a handler runs between two statements (the idempotency
  middleware), which takes two readings.
\<close>

type_synonym timestamp = int

definition interval_seconds :: "int \<Rightarrow> int" where
  "interval_seconds n = n * 1000"

definition interval_minutes :: "int \<Rightarrow> int" where
  "interval_minutes n = n * 60 * 1000"

definition interval_hours :: "int \<Rightarrow> int" where
  "interval_hours n = n * 60 * 60 * 1000"

definition interval_days :: "int \<Rightarrow> int" where
  "interval_days n = n * 24 * 60 * 60 * 1000"

text \<open>
  JavaScript values, as far as the server handles them: what \<^verbatim>\<open>JSON.parse\<close> returns, what
  a handler passes to \<^verbatim>\<open>res.json\<close>, and \<^verbatim>\<open>undefined\<close>. A number is the real it denotes
  (\<^verbatim>\<open>NaN\<close> and the infinities are not modelled); a string is the list of its UTF-8
  bytes; an object is the list of its properties, in insertion order.
\<close>

datatype js =
    Undefined
  | Null
  | Boolean bool
  | Number real
  | String string
  | Array "js list"
  | Object "(string \<times> js) list"

text \<open>\<^verbatim>\<open>v.name\<close>: a \<^verbatim>\<open>TypeError\<close> on \<^verbatim>\<open>null\<close> and \<^verbatim>\<open>undefined\<close> (the value \<open>None\<close>),
  the property of an object, and \<^verbatim>\<open>undefined\<close> where there is none. The only property
  names the server reads are claim names, which no primitive or array carries.\<close>

fun get_property :: "js \<Rightarrow> string \<Rightarrow> js option" where
  "get_property Undefined name = None"
| "get_property Null name = None"
| "get_property (Object props) name =
     (case map_of props name of None \<Rightarrow> Some Undefined | Some v \<Rightarrow> Some v)"
| "get_property v name = Some Undefined"

text \<open>The truthiness of a value, as \<^verbatim>\<open>!v\<close>, \<^verbatim>\<open>a && b\<close> and \<^verbatim>\<open>a || b\<close> test it.\<close>

fun truthy :: "js \<Rightarrow> bool" where
  "truthy Undefined = False"
| "truthy Null = False"
| "truthy (Boolean b) = b"
| "truthy (Number n) = (n \<noteq> 0)"
| "truthy (String s) = (s \<noteq> [])"
| "truthy (Array vs) = True"
| "truthy (Object props) = True"

text \<open>A response: the status, and the body given to \<^verbatim>\<open>res.json\<close>. \<^verbatim>\<open>JSON.stringify\<close>
  leaves out the properties whose value is \<^verbatim>\<open>undefined\<close>; \<open>json_body\<close> builds an object
  literal that way.\<close>

record response =
  status :: nat
  body :: js

definition json_body :: "(string \<times> js) list \<Rightarrow> js" where
  "json_body props = Object (filter (\<lambda>(k, v). v \<noteq> Undefined) props)"

definition respond :: "nat \<Rightarrow> (string \<times> js) list \<Rightarrow> response" where
  "respond code props = \<lparr>status = code, body = json_body props\<rparr>"

text \<open>What a middleware does with a request: answer it, or call \<^verbatim>\<open>next()\<close>.\<close>

datatype decision = Respond response | Next

section \<open>Rate limiting (middleware/rate-limit.js, config/index.js)\<close>

subsection \<open>Configuration\<close>

definition registration_max_per_day :: int where
  "registration_max_per_day = 20"

definition registration_block_escalation :: "int list" where
  "registration_block_escalation = [3600, 86400, 604800]"

definition login_ip_tokens_per_minute :: real where
  "login_ip_tokens_per_minute = 5"

definition login_ip_bucket_size :: real where
  "login_ip_bucket_size = 5"

definition login_user_max_consecutive_failures :: int where
  "login_user_max_consecutive_failures = 5"

definition login_user_block_escalation :: "int list" where
  "login_user_block_escalation = [300, 900, 1800]"

subsection \<open>The escalation ladder\<close>

text \<open>
  \<^verbatim>\<open>get_block_duration(block_count, escalation)\<close> returns \<^verbatim>\<open>null\<close> (permanent) from the
  ladder's length on, and \<^verbatim>\<open>escalation[block_count]\<close> below it. A JavaScript array read
  at a negative index is \<^verbatim>\<open>undefined\<close>.
\<close>

datatype block_duration = Seconds int | Permanent | No_Duration

definition get_block_duration :: "int \<Rightarrow> int list \<Rightarrow> block_duration" where
  "get_block_duration block_count escalation =
     (if block_count \<ge> int (length escalation) then Permanent
      else if block_count < 0 then No_Duration
      else Seconds (escalation ! nat block_count))"

definition is_currently_blocked :: "timestamp option \<Rightarrow> timestamp \<Rightarrow> bool" where
  "is_currently_blocked blocked_until now =
     (case blocked_until of None \<Rightarrow> False | Some t \<Rightarrow> t > now)"

subsection \<open>The rate-limit records\<close>

text \<open>
  The three tables share the columns \<^verbatim>\<open>blocked_until\<close> and \<^verbatim>\<open>block_count\<close>. The audit
  columns \<^verbatim>\<open>created_at\<close> and \<^verbatim>\<open>updated_at\<close> are left out: no statement of the limiter
  reads them.
\<close>

record block_state =
  blocked_until :: "timestamp option"
  block_count :: int

record login_ip_row = block_state +
  tokens :: real
  last_refill :: timestamp

record login_user_row = block_state +
  consecutive_failures :: int
  last_failure_at :: "timestamp option"

type_synonym login_ip_table = "string \<rightharpoonup> login_ip_row"
type_synonym login_user_table = "string \<rightharpoonup> login_user_row"

subsection \<open>The in-memory cache (services/cache.js)\<close>

record cache_entry =
  cached_value :: bool
  cache_expires_at :: "timestamp option"

type_synonym cache = "string \<rightharpoonup> cache_entry"

text \<open>\<^verbatim>\<open>get\<close> deletes an entry it finds expired; an expiry of \<open>0\<close> is falsy and never
  expires.\<close>

definition cache_get :: "cache \<Rightarrow> string \<Rightarrow> timestamp \<Rightarrow> bool option \<times> cache" where
  "cache_get c key now =
     (case c key of
        None \<Rightarrow> (None, c)
      | Some entry \<Rightarrow>
          (case cache_expires_at entry of
             Some e \<Rightarrow>
               if e \<noteq> 0 \<and> now > e then (None, c(key := None))
               else (Some (cached_value entry), c)
           | None \<Rightarrow> (Some (cached_value entry), c)))"

definition cache_set :: "cache \<Rightarrow> string \<Rightarrow> bool \<Rightarrow> int option \<Rightarrow> timestamp \<Rightarrow> cache" where
  "cache_set c key v ttl_ms now =
     c(key \<mapsto> \<lparr>cached_value = v,
                cache_expires_at =
                  (case ttl_ms of
                     None \<Rightarrow> None
                   | Some ttl \<Rightarrow> if ttl \<noteq> 0 then Some (now + ttl) else None)\<rparr>)"

definition cache_delete :: "cache \<Rightarrow> string \<Rightarrow> cache" where
  "cache_delete c key = c(key := None)"

subsection \<open>Login by IP: the token bucket\<close>

record login_ip_state =
  ip_table :: login_ip_table
  ip_cache :: cache

text \<open>\<^verbatim>\<open>is_permanently_blocked(ip, 'rate_limit_login_ip')\<close>: the cached answer when
  there is one, else the table's, cached for a minute. \<open>db_up\<close> is whether the store
  answers during this request; a rejected query throws (\<open>None\<close>).\<close>

definition is_permanently_blocked ::
  "bool \<Rightarrow> login_ip_state \<Rightarrow> string \<Rightarrow> timestamp \<Rightarrow> bool option \<times> login_ip_state" where
  "is_permanently_blocked db_up s ip now =
     (let cache_key = ''rate_limit_login_ip:permanent:'' @ ip;
          (cached, c) = cache_get (ip_cache s) cache_key now
      in case cached of
           Some b \<Rightarrow> (Some b, s\<lparr>ip_cache := c\<rparr>)
         | None \<Rightarrow>
             if \<not> db_up then (None, s\<lparr>ip_cache := c\<rparr>)
             else
               (let is_blocked =
                      (case ip_table s ip of
                         None \<Rightarrow> False
                       | Some r \<Rightarrow> blocked_until r = None \<and> block_count r \<ge> 4)
                in (Some is_blocked,
                    s\<lparr>ip_cache := cache_set c cache_key is_blocked (Some 60000) now\<rparr>)))"

text \<open>The upsert: a new row starts with a full bucket; an existing row is refilled by
  the minutes since \<^verbatim>\<open>last_refill\<close> times the bucket size, and capped by \<^verbatim>\<open>LEAST\<close>.\<close>

definition refill :: "login_ip_row \<Rightarrow> timestamp \<Rightarrow> real" where
  "refill r now =
     min login_ip_bucket_size
         (tokens r + (real_of_int (now - last_refill r) / 1000 / 60) * login_ip_bucket_size)"

definition upsert_login_ip :: "login_ip_table \<Rightarrow> string \<Rightarrow> timestamp \<Rightarrow> login_ip_table" where
  "upsert_login_ip tbl ip now =
     (case tbl ip of
        None \<Rightarrow>
          tbl(ip \<mapsto> \<lparr>blocked_until = None, block_count = 0,
                       tokens = login_ip_bucket_size, last_refill = now\<rparr>)
      | Some r \<Rightarrow> tbl(ip \<mapsto> r\<lparr>tokens := refill r now, last_refill := now\<rparr>))"

text \<open>The counters are \<^verbatim>\<open>INTEGER\<close> columns: an addition beyond the largest 32-bit
  integer raises \<^verbatim>\<open>integer out of range\<close>, and the statement changes nothing.\<close>

definition int4_max :: int where
  "int4_max = 2147483647"

definition block_permanently :: "('a block_state_scheme) \<Rightarrow> 'a block_state_scheme" where
  "block_permanently r = r\<lparr>block_count := block_count r + 1, blocked_until := None\<rparr>"

definition block_for :: "int \<Rightarrow> timestamp \<Rightarrow> ('a block_state_scheme) \<Rightarrow> 'a block_state_scheme" where
  "block_for seconds now r =
     r\<lparr>blocked_until := Some (now + interval_seconds seconds), block_count := block_count r + 1\<rparr>"

definition consume_token :: "login_ip_row \<Rightarrow> login_ip_row" where
  "consume_token r = r\<lparr>tokens := tokens r - 1\<rparr>"

definition update_row :: "('k \<rightharpoonup> 'v) \<Rightarrow> 'k \<Rightarrow> ('v \<Rightarrow> 'v) \<Rightarrow> ('k \<rightharpoonup> 'v)" where
  "update_row tbl k f = (case tbl k of None \<Rightarrow> tbl | Some r \<Rightarrow> tbl(k \<mapsto> f r))"

definition too_many_logins :: "js \<Rightarrow> response" where
  "too_many_logins retry_after =
     respond 429 [(''error'', String ''Too many login attempts''),
                  (''message'', String ''Please try again later''),
                  (''retry_after'', retry_after)]"

text \<open>\<^verbatim>\<open>Math.ceil((new Date(blocked_until) - new Date()) / 1000)\<close>; \<^verbatim>\<open>new Date(null)\<close> is
  the epoch.\<close>

definition remaining_seconds :: "timestamp option \<Rightarrow> timestamp \<Rightarrow> int" where
  "remaining_seconds until now =
     \<lceil>real_of_int ((case until of None \<Rightarrow> 0 | Some t \<Rightarrow> t) - now) / 1000\<rceil>"

text \<open>
  The middleware after the permanent-block check: the upsert, the test of a running
  block, the test of the bucket with the escalation, and the consumption of one token.
  The login-by-IP configuration has no ladder of its own, so the registration ladder is
  used. A duration of \<^verbatim>\<open>undefined\<close> makes the interval literal invalid, and a block
  count at the largest integer cannot be incremented: the statement's error is caught
  and the request goes on.
\<close>

definition login_ip_bucket :: "string \<Rightarrow> timestamp \<Rightarrow> login_ip_state \<Rightarrow> decision \<times> login_ip_state" where
  "login_ip_bucket ip now s =
     (let tbl = upsert_login_ip (ip_table s) ip now in
      case tbl ip of
        None \<Rightarrow> (Next, s\<lparr>ip_table := tbl\<rparr>)
      | Some record \<Rightarrow>
          if is_currently_blocked (blocked_until record) now then
            (Respond (too_many_logins
               (Number (real_of_int (remaining_seconds (blocked_until record) now)))),
             s\<lparr>ip_table := tbl\<rparr>)
          else if tokens record < 1 then
            (case get_block_duration (block_count record) registration_block_escalation of
               Permanent \<Rightarrow>
                 if block_count record \<ge> int4_max then (Next, s\<lparr>ip_table := tbl\<rparr>)
                 else
                   (Respond (too_many_logins Undefined),
                    s\<lparr>ip_table := update_row tbl ip block_permanently,
                      ip_cache := cache_delete (ip_cache s) (''rate_limit_login_ip:permanent:'' @ ip)\<rparr>)
             | Seconds d \<Rightarrow>
                 (Respond (too_many_logins (if d \<noteq> 0 then Number (real_of_int d) else Undefined)),
                  s\<lparr>ip_table := update_row tbl ip (block_for d now)\<rparr>)
             | No_Duration \<Rightarrow> (Next, s\<lparr>ip_table := tbl\<rparr>))
          else (Next, s\<lparr>ip_table := update_row tbl ip consume_token\<rparr>))"

definition rate_limit_login_ip ::
  "bool \<Rightarrow> string \<Rightarrow> timestamp \<Rightarrow> login_ip_state \<Rightarrow> decision \<times> login_ip_state" where
  "rate_limit_login_ip db_up ip now s =
     (case is_permanently_blocked db_up s ip now of
        (None, s1) \<Rightarrow> (Next, s1)
      | (Some True, s1) \<Rightarrow>
          (Respond (respond 429 [(''error'', String ''Too many login attempts''),
                                 (''message'', String ''This IP has been permanently blocked'')]), s1)
      | (Some False, s1) \<Rightarrow>
          if \<not> db_up then (Next, s1) else login_ip_bucket ip now s1)"

text \<open>The periodic sweep (jobs/cleanup.js): a row whose block has run out gets a full
  bucket and no block.\<close>

definition cleanup_login_ip :: "timestamp \<Rightarrow> login_ip_table \<Rightarrow> login_ip_table" where
  "cleanup_login_ip now tbl =
     (\<lambda>ip. case tbl ip of
        None \<Rightarrow> None
      | Some r \<Rightarrow>
          (case blocked_until r of
             Some t \<Rightarrow> if t < now then Some (r\<lparr>tokens := 5, blocked_until := None\<rparr>) else Some r
           | None \<Rightarrow> Some r))"

text \<open>The life of the table: requests from any address at any time, and sweeps.\<close>

datatype login_ip_event = Request bool string timestamp | Sweep timestamp

fun login_ip_step :: "login_ip_state \<Rightarrow> login_ip_event \<Rightarrow> login_ip_state" where
  "login_ip_step s (Request db_up ip now) = snd (rate_limit_login_ip db_up ip now s)"
| "login_ip_step s (Sweep now) = s\<lparr>ip_table := cleanup_login_ip now (ip_table s)\<rparr>"

definition login_ip_run :: "login_ip_event list \<Rightarrow> login_ip_state \<Rightarrow> login_ip_state" where
  "login_ip_run events s = foldl login_ip_step s events"

definition login_ip_initial :: login_ip_state where
  "login_ip_initial = \<lparr>ip_table = Map.empty, ip_cache = Map.empty\<rparr>"

subsection \<open>Login by user: the failure counter with decay\<close>

text \<open>
  The upsert of \<^verbatim>\<open>record_login_failure\<close>: a new row counts one failure; an existing row
  is reset to one when its last failure is more than 30 minutes old, and incremented
  otherwise (also when \<^verbatim>\<open>last_failure_at\<close> is \<^verbatim>\<open>NULL\<close>: the comparison is then not
  true). \<^verbatim>\<open>last_failure_at\<close> becomes \<^verbatim>\<open>NOW()\<close>. The counter cannot be incremented
  beyond the largest integer: the statement then raises an error (\<open>None\<close>) and the row
  stays as it was.
\<close>

definition count_failure :: "login_user_row \<Rightarrow> timestamp \<Rightarrow> int option" where
  "count_failure r now =
     (case last_failure_at r of
        Some t \<Rightarrow>
          if t < now - interval_minutes 30 then Some 1
          else if consecutive_failures r \<ge> int4_max then None
          else Some (consecutive_failures r + 1)
      | None \<Rightarrow>
          if consecutive_failures r \<ge> int4_max then None
          else Some (consecutive_failures r + 1))"

definition upsert_login_failure ::
  "login_user_table \<Rightarrow> string \<Rightarrow> timestamp \<Rightarrow> login_user_table option" where
  "upsert_login_failure tbl user_id now =
     (case tbl user_id of
        None \<Rightarrow>
          Some (tbl(user_id \<mapsto> \<lparr>blocked_until = None, block_count = 0,
                                  consecutive_failures = 1, last_failure_at = Some now\<rparr>))
      | Some r \<Rightarrow>
          (case count_failure r now of
             None \<Rightarrow> None
           | Some n \<Rightarrow>
               Some (tbl(user_id \<mapsto> r\<lparr>consecutive_failures := n, last_failure_at := Some now\<rparr>))))"

datatype failure_result = Not_Blocked | Blocked_Permanently | Blocked_For int

text \<open>
  \<^verbatim>\<open>record_login_failure(user_id)\<close>: the upsert, then, when the counter it returns has
  reached the threshold, the block drawn from the ladder: a permanent block increments
  \<^verbatim>\<open>block_count\<close>; a temporary block also clears the counter. An error of a statement
  (the store is down, an integer is out of range, the interval literal is invalid) is
  caught, and the function answers \<^verbatim>\<open>{blocked: false}\<close> with the statements before it
  done.
\<close>

definition record_login_failure ::
  "bool \<Rightarrow> string \<Rightarrow> timestamp \<Rightarrow> login_user_table \<Rightarrow> failure_result \<times> login_user_table" where
  "record_login_failure db_up user_id now tbl =
     (if \<not> db_up then (Not_Blocked, tbl)
      else
        (case upsert_login_failure tbl user_id now of
           None \<Rightarrow> (Not_Blocked, tbl)
         | Some tbl1 \<Rightarrow>
             (case tbl1 user_id of
                None \<Rightarrow> (Not_Blocked, tbl1)
              | Some record \<Rightarrow>
                  if consecutive_failures record \<ge> login_user_max_consecutive_failures then
                    (case get_block_duration (block_count record) login_user_block_escalation of
                       Permanent \<Rightarrow>
                         if block_count record \<ge> int4_max then (Not_Blocked, tbl1)
                         else (Blocked_Permanently, update_row tbl1 user_id block_permanently)
                     | Seconds d \<Rightarrow>
                         (Blocked_For d,
                          update_row tbl1 user_id
                            (\<lambda>r. (block_for d now r)\<lparr>consecutive_failures := 0\<rparr>))
                     | No_Duration \<Rightarrow> (Not_Blocked, tbl1))
                  else (Not_Blocked, tbl1))))"

definition reset_login_failures :: "bool \<Rightarrow> string \<Rightarrow> login_user_table \<Rightarrow> login_user_table" where
  "reset_login_failures db_up user_id tbl =
     (if \<not> db_up then tbl
      else update_row tbl user_id (\<lambda>r. r\<lparr>consecutive_failures := 0, last_failure_at := None\<rparr>))"

datatype block_status = Unblocked | Block_Permanent | Block_Until timestamp

definition check_user_login_block ::
  "bool \<Rightarrow> string \<Rightarrow> timestamp \<Rightarrow> login_user_table \<Rightarrow> block_status" where
  "check_user_login_block db_up user_id now tbl =
     (if \<not> db_up then Unblocked
      else
        (case tbl user_id of
           None \<Rightarrow> Unblocked
         | Some record \<Rightarrow>
             if block_count record \<ge> 4 \<and> blocked_until record = None then Block_Permanent
             else
               (case blocked_until record of
                  Some t \<Rightarrow> if t > now then Block_Until t else Unblocked
                | None \<Rightarrow> Unblocked)))"

text \<open>The bucket's bound: no row holds more tokens than the bucket size.\<close>

definition tokens_capped :: "login_ip_table \<Rightarrow> bool" where
  "tokens_capped tbl = (\<forall>ip r. tbl ip = Some r \<longrightarrow> tokens r \<le> login_ip_bucket_size)"


text \<open>A user with two recorded failures and a user with four, the last one at time
  1000000 each, and neither blocked before.\<close>

definition two_failures :: login_user_table where
  "two_failures = Map.empty(''u1'' \<mapsto> \<lparr>blocked_until = None, block_count = 0,
       consecutive_failures = 2, last_failure_at = Some 1000000\<rparr>)"

definition four_failures :: login_user_table where
  "four_failures = Map.empty(''u1'' \<mapsto> \<lparr>blocked_until = None, block_count = 0,
       consecutive_failures = 4, last_failure_at = Some 1000000\<rparr>)"

section \<open>JSON Web Tokens (utils/jwt.js)\<close>

text \<open>
  A string is the list of its UTF-8 bytes, and so is a \<^verbatim>\<open>Buffer\<close>: \<^verbatim>\<open>Buffer.from(s)\<close> and
  \<^verbatim>\<open>buf.toString()\<close> are the identity. (\<^verbatim>\<open>toString\<close> replaces bytes that are not UTF-8;
  what \<^verbatim>\<open>JSON.parse\<close> then makes of the text is left to the parameter below.)
\<close>

datatype js_error = Error string | TypeError | SyntaxError

subsection \<open>Configuration and built-in functions\<close>

record jwt_config =
  secret :: string
  access_expiry :: string
  refresh_expiry :: string

text \<open>The configuration when the environment sets none of the three variables.\<close>

definition default_jwt_config :: jwt_config where
  "default_jwt_config =
     \<lparr>secret = ''dev-secret-change-in-production'', access_expiry = ''15m'',
      refresh_expiry = ''7d''\<rparr>"

text \<open>
  The functions of the platform that the module calls and does not define:
  \<^verbatim>\<open>createHmac('sha256', secret).update(data).digest()\<close>, \<^verbatim>\<open>Buffer.from(s, 'base64')\<close> (a
  lenient decoder: it throws on no input), \<^verbatim>\<open>JSON.stringify\<close>, \<^verbatim>\<open>JSON.parse\<close> (\<open>None\<close>
  is its \<^verbatim>\<open>SyntaxError\<close>), and the conversion to a number that \<^verbatim>\<open><\<close> applies to a
  string, an array or an object: \<open>Inr None\<close> is \<^verbatim>\<open>NaN\<close>, and \<open>Inl\<close> is the \<^verbatim>\<open>TypeError\<close>
  of a value that has no primitive value (an object whose own \<^verbatim>\<open>toString\<close> is not a
  function, as \<^verbatim>\<open>JSON.parse\<close> makes it from \<^verbatim>\<open>{"toString": 1}\<close>).
\<close>

record builtins =
  hmac_sha256 :: "string \<Rightarrow> string \<Rightarrow> string"
  buffer_from_base64 :: "string \<Rightarrow> string"
  json_stringify :: "js \<Rightarrow> string"
  json_parse :: "string \<Rightarrow> js option"
  to_number :: "js \<Rightarrow> js_error + real option"

subsection \<open>Durations\<close>

text \<open>\<^verbatim>\<open>parse_duration\<close>: the pattern \<^verbatim>\<open>/^(\d+)([mhd])$/\<close>, then milliseconds.\<close>

definition is_digit :: "char \<Rightarrow> bool" where
  "is_digit c = (48 \<le> (of_char c :: nat) \<and> (of_char c :: nat) \<le> 57)"

definition parse_int :: "string \<Rightarrow> int" where
  "parse_int digits = foldl (\<lambda>a c. 10 * a + (of_char c - 48)) 0 digits"

definition parse_duration :: "string \<Rightarrow> js_error + int" where
  "parse_duration duration =
     (if duration = [] \<or> butlast duration = [] \<or> \<not> list_all is_digit (butlast duration)
         \<or> last duration \<notin> set ''mhd''
      then Inl (Error (''Invalid duration format: '' @ duration))
      else
        (let v = parse_int (butlast duration); unit = last duration in
         if unit = CHR ''m'' then Inr (v * 60 * 1000)
         else if unit = CHR ''h'' then Inr (v * 60 * 60 * 1000)
         else Inr (v * 24 * 60 * 60 * 1000)))"

subsection \<open>Base64\<close>

text \<open>\<^verbatim>\<open>buffer.toString('base64')\<close>: the encoding of RFC 4648, three bytes to four
  digits, padded with \<^verbatim>\<open>=\<close>.\<close>

definition base64_digit :: "nat \<Rightarrow> char" where
  "base64_digit i =
     (if i < 26 then char_of (65 + i)
      else if i < 52 then char_of (71 + i)
      else if i < 62 then char_of (i - 4)
      else if i = 62 then CHR ''+''
      else CHR ''/'')"

text \<open>The 64 digits, as bytes.\<close>

definition base64_char :: "char \<Rightarrow> bool" where
  "base64_char c =
     (let n = (of_char c :: nat) in
      (65 \<le> n \<and> n \<le> 90) \<or> (97 \<le> n \<and> n \<le> 122) \<or> (48 \<le> n \<and> n \<le> 57) \<or> n = 43 \<or> n = 47)"

fun buffer_to_base64 :: "string \<Rightarrow> string" where
  "buffer_to_base64 (a # b # c # rest) =
     (let x = of_char a; y = of_char b; z = of_char c in
      [base64_digit (x div 4), base64_digit ((x mod 4) * 16 + y div 16),
       base64_digit ((y mod 16) * 4 + z div 64), base64_digit (z mod 64)])
     @ buffer_to_base64 rest"
| "buffer_to_base64 [a, b] =
     (let x = of_char a; y = of_char b in
      [base64_digit (x div 4), base64_digit ((x mod 4) * 16 + y div 16),
       base64_digit ((y mod 16) * 4), CHR ''=''])"
| "buffer_to_base64 [a] =
     (let x = of_char a in
      [base64_digit (x div 4), base64_digit ((x mod 4) * 16), CHR ''='', CHR ''=''])"
| "buffer_to_base64 [] = []"

definition replace_char :: "char \<Rightarrow> char \<Rightarrow> string \<Rightarrow> string" where
  "replace_char old new s = map (\<lambda>c. if c = old then new else c) s"

definition url_safe :: "string \<Rightarrow> string" where
  "url_safe s = replace_char (CHR ''/'') (CHR ''_'') (replace_char (CHR ''+'') (CHR ''-'') s)"

definition url_unsafe :: "string \<Rightarrow> string" where
  "url_unsafe s = replace_char (CHR ''_'') (CHR ''/'') (replace_char (CHR ''-'') (CHR ''+'') s)"

definition base64_url_encode :: "string \<Rightarrow> string" where
  "base64_url_encode input =
     filter (\<lambda>c. c \<noteq> CHR ''='') (url_safe (buffer_to_base64 input))"

text \<open>The \<^verbatim>\<open>length\<close> of a string counts UTF-16 code units: one for each character of
  up to three bytes, two for a character of four bytes.\<close>

definition js_length :: "string \<Rightarrow> nat" where
  "js_length s =
     length (filter (\<lambda>c. (of_char c :: nat) < 128 \<or> 192 \<le> (of_char c :: nat)) s)
     + length (filter (\<lambda>c. 240 \<le> (of_char c :: nat)) s)"

lemma js_length_append: "js_length (s @ t) = js_length s + js_length t"
  by (simp add: js_length_def)

lemma js_length_pad: "js_length ''='' = 1"
  by (simp add: js_length_def)

text \<open>The padding loop of \<^verbatim>\<open>base64_url_decode\<close>.\<close>

function restore_padding :: "string \<Rightarrow> string" where
  "restore_padding base64 =
     (if js_length base64 mod 4 \<noteq> 0 then restore_padding (base64 @ ''='') else base64)"
  by pat_completeness auto
termination
proof (relation "measure (\<lambda>s. 3 - (js_length s + 3) mod 4)")
  show "wf (measure (\<lambda>s. 3 - (js_length s + 3) mod 4))"
    by simp
next
  fix base64 :: string
  assume "js_length base64 mod 4 \<noteq> 0"
  then show "(base64 @ ''='', base64) \<in> measure (\<lambda>s. 3 - (js_length s + 3) mod 4)"
    unfolding in_measure js_length_append js_length_pad by presburger
qed

declare restore_padding.simps [simp del]

definition base64_url_decode :: "builtins \<Rightarrow> string \<Rightarrow> string" where
  "base64_url_decode B input =
     buffer_from_base64 B (restore_padding (url_unsafe input))"

subsection \<open>Signing and verifying\<close>

definition create_signature :: "builtins \<Rightarrow> string \<Rightarrow> string \<Rightarrow> string" where
  "create_signature B data key = base64_url_encode (hmac_sha256 B key data)"

text \<open>\<^verbatim>\<open>timingSafeEqual\<close> compares two buffers of one length, byte by byte.\<close>

definition verify_signature :: "builtins \<Rightarrow> string \<Rightarrow> string \<Rightarrow> string \<Rightarrow> bool" where
  "verify_signature B data signature key =
     (let expected = create_signature B data key in
      if length signature \<noteq> length expected then False else signature = expected)"

text \<open>\<^verbatim>\<open>{...payload, name: v}\<close>: a property the object has keeps its place and takes
  the new value; a new property comes last.\<close>

fun set_property :: "(string \<times> js) list \<Rightarrow> string \<Rightarrow> js \<Rightarrow> (string \<times> js) list" where
  "set_property [] name v = [(name, v)]"
| "set_property ((k, w) # props) name v =
     (if k = name then (k, v) # props else (k, w) # set_property props name v)"

definition jwt_header :: js where
  "jwt_header = Object [(''alg'', String ''HS256''), (''typ'', String ''JWT'')]"

definition full_payload :: "(string \<times> js) list \<Rightarrow> timestamp \<Rightarrow> int \<Rightarrow> (string \<times> js) list" where
  "full_payload payload now ttl =
     set_property (set_property payload ''iat'' (Number (real_of_int (now div 1000))))
       ''exp'' (Number (real_of_int ((now + ttl) div 1000)))"

text \<open>\<^verbatim>\<open>create_jwt(payload, options)\<close> at the time \<open>now\<close>; \<open>expiry\<close> is
  \<^verbatim>\<open>options.expiry\<close>. It throws what \<^verbatim>\<open>parse_duration\<close> throws.\<close>

definition create_jwt ::
  "builtins \<Rightarrow> jwt_config \<Rightarrow> timestamp \<Rightarrow> (string \<times> js) list \<Rightarrow> string option \<Rightarrow> js_error + string" where
  "create_jwt B cfg now payload expiry =
     (let duration =
            (case expiry of
               Some e \<Rightarrow> if e \<noteq> [] then e else access_expiry cfg
             | None \<Rightarrow> access_expiry cfg)
      in case parse_duration duration of
           Inl err \<Rightarrow> Inl err
         | Inr ttl \<Rightarrow>
             (let encoded_header = base64_url_encode (json_stringify B jwt_header);
                  encoded_payload =
                    base64_url_encode (json_stringify B (Object (full_payload payload now ttl)));
                  signature_input = encoded_header @ ''.'' @ encoded_payload;
                  signature = create_signature B signature_input (secret cfg)
              in Inr (signature_input @ ''.'' @ signature)))"

text \<open>\<^verbatim>\<open>s.split('.')\<close>.\<close>

fun split_on :: "char \<Rightarrow> string \<Rightarrow> string list" where
  "split_on sep [] = [[]]"
| "split_on sep (c # s) =
     (if c = sep then [] # split_on sep s
      else (case split_on sep s of
              part # parts \<Rightarrow> (c # part) # parts
            | [] \<Rightarrow> [[c]]))"

text \<open>\<^verbatim>\<open>v < n\<close> for a number \<open>n\<close>: \<open>v\<close> is converted to a number, and a comparison
  with \<^verbatim>\<open>NaN\<close> is false. The conversion can throw.\<close>

definition js_less :: "builtins \<Rightarrow> js \<Rightarrow> real \<Rightarrow> js_error + bool" where
  "js_less B v n =
     (case v of
        Undefined \<Rightarrow> Inr False
      | Null \<Rightarrow> Inr (0 < n)
      | Boolean b \<Rightarrow> Inr ((if b then 1 else 0) < n)
      | Number x \<Rightarrow> Inr (x < n)
      | _ \<Rightarrow> (case to_number B v of
                Inl err \<Rightarrow> Inl err
              | Inr None \<Rightarrow> Inr False
              | Inr (Some x) \<Rightarrow> Inr (x < n)))"

datatype verify_result = Valid js | Invalid string

text \<open>
  \<^verbatim>\<open>verify_jwt(token)\<close> at the time \<open>now\<close>, for any value \<open>token\<close>. Inside its \<^verbatim>\<open>try\<close>,
  \<^verbatim>\<open>JSON.parse\<close> can throw, and so can reading \<^verbatim>\<open>payload.exp\<close> (of \<^verbatim>\<open>null\<close>) and
  comparing it with the time (\<^verbatim>\<open>payload.exp && payload.exp < now\<close> compares only a truthy
  \<^verbatim>\<open>exp\<close>): the \<^verbatim>\<open>catch\<close> turns each into the result \<^verbatim>\<open>Invalid token\<close>.
\<close>

definition verify_jwt :: "builtins \<Rightarrow> jwt_config \<Rightarrow> timestamp \<Rightarrow> js \<Rightarrow> verify_result" where
  "verify_jwt B cfg now token =
     (case token of
        String t \<Rightarrow>
          if t = [] then Invalid ''Token is required''
          else
            (case split_on (CHR ''.'') t of
               [encoded_header, encoded_payload, signature] \<Rightarrow>
                 if \<not> verify_signature B (encoded_header @ ''.'' @ encoded_payload) signature (secret cfg)
                 then Invalid ''Invalid signature''
                 else
                   (case json_parse B (base64_url_decode B encoded_payload) of
                      None \<Rightarrow> Invalid ''Invalid token''
                    | Some payload \<Rightarrow>
                        (case get_property payload ''exp'' of
                           None \<Rightarrow> Invalid ''Invalid token''
                         | Some exp_claim \<Rightarrow>
                             (case (if truthy exp_claim
                                    then js_less B exp_claim (real_of_int (now div 1000))
                                    else Inr False) of
                                Inl err \<Rightarrow> Invalid ''Invalid token''
                              | Inr expired \<Rightarrow>
                                  if expired then Invalid ''Token expired'' else Valid payload)))
             | _ \<Rightarrow> Invalid ''Invalid token format'')
      | _ \<Rightarrow> Invalid ''Token is required'')"

subsection \<open>Access and refresh tokens\<close>

text \<open>A user as the token functions read it; \<open>ident\<close> is its \<^verbatim>\<open>id\<close>.\<close>

record user =
  ident :: string
  username :: string
  is_admin :: bool
  is_verified :: bool

text \<open>The options of \<^verbatim>\<open>create_access_token\<close>: \<^verbatim>\<open>is_impersonation\<close> as its truthiness,
  \<^verbatim>\<open>admin_id\<close> as a value (\<^verbatim>\<open>undefined\<close> when it is not given).\<close>

record access_options =
  is_impersonation :: bool
  admin_id :: js

definition no_options :: access_options where
  "no_options = \<lparr>is_impersonation = False, admin_id = Undefined\<rparr>"

definition access_payload :: "'a user_scheme \<Rightarrow> access_options \<Rightarrow> (string \<times> js) list" where
  "access_payload u options =
     (let payload =
            [(''sub'', String (ident u)), (''username'', String (username u)),
             (''is_admin'', Boolean (is_admin u)), (''is_verified'', Boolean (is_verified u)),
             (''type'', String ''access'')]
      in if is_impersonation options
         then set_property (set_property payload ''is_impersonation'' (Boolean True))
                ''admin_id'' (admin_id options)
         else payload)"

definition create_access_token ::
  "builtins \<Rightarrow> jwt_config \<Rightarrow> timestamp \<Rightarrow> 'a user_scheme \<Rightarrow> access_options \<Rightarrow> js_error + string" where
  "create_access_token B cfg now u options =
     create_jwt B cfg now (access_payload u options) (Some (access_expiry cfg))"

definition create_refresh_token ::
  "builtins \<Rightarrow> jwt_config \<Rightarrow> timestamp \<Rightarrow> 'a user_scheme \<Rightarrow> bool \<Rightarrow> js_error + string" where
  "create_refresh_token B cfg now u stay_logged_in =
     create_jwt B cfg now
       [(''sub'', String (ident u)), (''type'', String ''refresh''),
        (''session_only'', Boolean (\<not> stay_logged_in))]
       (Some (if stay_logged_in then refresh_expiry cfg else ''24h''))"

text \<open>\<^verbatim>\<open>get_cookie_options(session_only)\<close>: \<^verbatim>\<open>maxAge\<close> is left out of a session
  cookie.\<close>

record cookie_options =
  httpOnly :: bool
  secure :: bool
  sameSite :: string
  path :: string
  maxAge :: "int option"

definition get_cookie_options :: "jwt_config \<Rightarrow> bool \<Rightarrow> bool \<Rightarrow> js_error + cookie_options" where
  "get_cookie_options cfg is_prod session_only =
     (let base_options =
            \<lparr>httpOnly = True, secure = is_prod, sameSite = ''strict'', path = ''/'',
             maxAge = None\<rparr>
      in if \<not> session_only then
           (case parse_duration (refresh_expiry cfg) of
              Inl err \<Rightarrow> Inl err
            | Inr ms \<Rightarrow> Inr (base_options\<lparr>maxAge := Some ms\<rparr>))
         else Inr base_options)"

definition get_expiry_date :: "timestamp \<Rightarrow> string \<Rightarrow> js_error + timestamp" where
  "get_expiry_date now duration =
     (case parse_duration duration of Inl err \<Rightarrow> Inl err | Inr ms \<Rightarrow> Inr (now + ms))"

subsection \<open>An instance of the built-in functions\<close>

text \<open>
  An instance for the examples: a strict decoder of RFC 4648 (Node's decoder agrees with
  it on the encoder's output), a printer of JSON text for values whose strings need no
  escape and whose numbers are integers, a parser that inverts the printer on a given
  list of values, and a stand-in for the keyed hash.
\<close>

definition base64_value :: "char \<Rightarrow> nat" where
  "base64_value c =
     (let n = (of_char c :: nat) in
      if 65 \<le> n \<and> n \<le> 90 then n - 65
      else if 97 \<le> n \<and> n \<le> 122 then n - 71
      else if 48 \<le> n \<and> n \<le> 57 then n + 4
      else if n = 43 then 62
      else 63)"

fun base64_decode :: "string \<Rightarrow> string" where
  "base64_decode (a # b # c # d # rest) =
     (let p = base64_value a; q = base64_value b; r = base64_value c; s = base64_value d in
      if c = CHR ''='' then [char_of (p * 4 + q div 16)]
      else if d = CHR ''='' then [char_of (p * 4 + q div 16), char_of ((q mod 16) * 16 + r div 4)]
      else [char_of (p * 4 + q div 16), char_of ((q mod 16) * 16 + r div 4),
            char_of ((r mod 4) * 64 + s)] @ base64_decode rest)"
| "base64_decode s = []"

function show_nat :: "nat \<Rightarrow> string" where
  "show_nat n = (if n < 10 then [char_of (48 + n)] else show_nat (n div 10) @ [char_of (48 + n mod 10)])"
  by pat_completeness auto
termination
  by (relation "measure id") auto

declare show_nat.simps [simp del]

fun json_print :: "js \<Rightarrow> string"
  and json_print_members :: "(string \<times> js) list \<Rightarrow> string list"
  and json_print_elements :: "js list \<Rightarrow> string list" where
  "json_print Undefined = []"
| "json_print Null = ''null''"
| "json_print (Boolean b) = (if b then ''true'' else ''false'')"
| "json_print (Number x) = (if x < 0 then ''-'' else []) @ show_nat (nat \<lfloor>\<bar>x\<bar>\<rfloor>)"
| "json_print (String s) = [CHR 0x22] @ s @ [CHR 0x22]"
| "json_print (Array vs) = ''['' @ concat (json_print_elements vs) @ '']''"
| "json_print (Object props) = ''{'' @ concat (json_print_members props) @ ''}''"
| "json_print_members [] = []"
| "json_print_members ((k, v) # props) =
     (if v = Undefined then json_print_members props
      else ([CHR 0x22] @ k @ [CHR 0x22] @ '':'' @ json_print v @ '','') # json_print_members props)"
| "json_print_elements [] = []"
| "json_print_elements (v # vs) = (json_print v @ '','') # json_print_elements vs"

definition json_parse_known :: "js list \<Rightarrow> string \<Rightarrow> js option" where
  "json_parse_known known text = find (\<lambda>v. json_print v = text) known"

definition example_hmac :: "string \<Rightarrow> string \<Rightarrow> string" where
  "example_hmac key data = rev key @ data @ key"

definition example_builtins :: "js list \<Rightarrow> builtins" where
  "example_builtins known =
     \<lparr>hmac_sha256 = example_hmac, buffer_from_base64 = base64_decode,
      json_stringify = json_print, json_parse = json_parse_known known,
      to_number = (\<lambda>v. Inr None)\<rparr>"

subsection \<open>Example tokens\<close>

definition alice :: user where
  "alice = \<lparr>ident = ''0b9f6c1e-7d0a-4c55-9a43-2f6f1f0c8a11'', username = ''alice'',
            is_admin = False, is_verified = True\<rparr>"

text \<open>The payload of the access token issued to \<open>alice\<close> at time 1700000000000 under
  the default configuration (15 minutes).\<close>

definition alice_payload :: js where
  "alice_payload =
     Object [(''sub'', String ''0b9f6c1e-7d0a-4c55-9a43-2f6f1f0c8a11''),
             (''username'', String ''alice''), (''is_admin'', Boolean False),
             (''is_verified'', Boolean True), (''type'', String ''access''),
             (''iat'', Number 1700000000), (''exp'', Number 1700000900)]"

text \<open>A token signed with the configured secret, for any payload: header, payload and
  signature as \<^verbatim>\<open>create_jwt\<close> joins them.\<close>

definition signed_token :: "builtins \<Rightarrow> jwt_config \<Rightarrow> js \<Rightarrow> string" where
  "signed_token B cfg payload =
     (let signature_input =
            base64_url_encode (json_stringify B jwt_header) @ ''.'' @
            base64_url_encode (json_stringify B payload)
      in signature_input @ ''.'' @ create_signature B signature_input (secret cfg))"

text \<open>A payload with no \<^verbatim>\<open>exp\<close> claim, and a payload whose \<^verbatim>\<open>exp\<close> is the epoch.\<close>

definition payload_without_exp :: js where
  "payload_without_exp = Object [(''sub'', String ''u-1''), (''type'', String ''access'')]"

definition payload_exp_zero :: js where
  "payload_exp_zero = Object [(''sub'', String ''u-1''), (''exp'', Number 0)]"

section \<open>Idempotency (middleware/idempotency.js)\<close>

subsection \<open>The table of idempotency keys\<close>

text \<open>
  The table \<^verbatim>\<open>idempotency_keys\<close> has the primary key \<^verbatim>\<open>key\<close>: it is a map from keys to
  rows. \<open>owner\<close> is the column \<^verbatim>\<open>user_id\<close> (\<^verbatim>\<open>NULL\<close> for an anonymous caller).
\<close>

record idempotency_row =
  owner :: "string option"
  endpoint :: string
  response_status :: nat
  response_body :: js
  created_at :: timestamp
  expires_at :: timestamp

type_synonym idempotency_keys = "string \<rightharpoonup> idempotency_row"

text \<open>The lookup: the row of the key, when it belongs to the caller and the endpoint
  and has not expired.\<close>

definition select_existing ::
  "idempotency_keys \<Rightarrow> string \<Rightarrow> string option \<Rightarrow> string \<Rightarrow> timestamp \<Rightarrow> idempotency_row option" where
  "select_existing tbl key user_id endpoint' now =
     (case tbl key of
        None \<Rightarrow> None
      | Some r \<Rightarrow>
          if owner r = user_id \<and> endpoint r = endpoint' \<and> expires_at r > now then Some r
          else None)"

text \<open>The insert: a new row for a new key; on a conflict on the key, the row keeps its
  owner, endpoint and creation time and takes the new status, body and expiry.\<close>

definition insert_response ::
  "idempotency_keys \<Rightarrow> string \<Rightarrow> string option \<Rightarrow> string \<Rightarrow> nat \<Rightarrow> js \<Rightarrow> timestamp \<Rightarrow> idempotency_keys" where
  "insert_response tbl key user_id endpoint' code body' now =
     (case tbl key of
        None \<Rightarrow>
          tbl(key \<mapsto> \<lparr>owner = user_id, endpoint = endpoint', response_status = code,
                        response_body = body', created_at = now,
                        expires_at = now + interval_hours 24\<rparr>)
      | Some r \<Rightarrow>
          tbl(key \<mapsto> r\<lparr>response_status := code, response_body := body',
                         expires_at := now + interval_hours 24\<rparr>))"

definition cleanup_idempotency_keys :: "timestamp \<Rightarrow> idempotency_keys \<Rightarrow> idempotency_keys" where
  "cleanup_idempotency_keys now tbl =
     (\<lambda>key. case tbl key of
        None \<Rightarrow> None
      | Some r \<Rightarrow> if expires_at r < now then None else Some r)"

subsection \<open>The key's validation (utils/validation.js)\<close>

definition is_key_char :: "char \<Rightarrow> bool" where
  "is_key_char c =
     (let n = (of_char c :: nat) in
      (97 \<le> n \<and> n \<le> 122) \<or> (65 \<le> n \<and> n \<le> 90) \<or> (48 \<le> n \<and> n \<le> 57) \<or> n = 95 \<or> n = 45)"

text \<open>\<open>trim\<close> is \<^verbatim>\<open>String.prototype.trim\<close>, a parameter.\<close>

definition validate_idempotency_key :: "(string \<Rightarrow> string) \<Rightarrow> string \<Rightarrow> string + string" where
  "validate_idempotency_key trim key =
     (if key = [] then Inl ''Idempotency key is required''
      else
        (let trimmed = trim key in
         if js_length trimmed < 8 \<or> js_length trimmed > 255
         then Inl ''Idempotency key must be between 8 and 255 characters''
         else if trimmed = [] \<or> \<not> list_all is_key_char trimmed
         then Inl ''Idempotency key contains invalid characters''
         else Inr trimmed))"

subsection \<open>The middleware\<close>

text \<open>A request, as the middleware reads it: the method, \<^verbatim>\<open>originalUrl\<close>, the header
  \<^verbatim>\<open>Idempotency-Key\<close> and \<^verbatim>\<open>req.user?.id\<close>.\<close>

record request =
  http_method :: string
  original_url :: string
  key_header :: "string option"
  caller :: "string option"

definition request_endpoint :: "request \<Rightarrow> string" where
  "request_endpoint req = http_method req @ '':'' @ takeWhile (\<lambda>c. c \<noteq> CHR ''?'') (original_url req)"

definition request_user_id :: "request \<Rightarrow> string option" where
  "request_user_id req =
     (case caller req of None \<Rightarrow> None | Some u \<Rightarrow> if u = [] then None else Some u)"

text \<open>
  The middleware up to its call of \<^verbatim>\<open>next()\<close>: it answers by itself (an error, or the
  stored response with the header \<^verbatim>\<open>Idempotent-Replayed\<close>), or lets the request through,
  with \<^verbatim>\<open>res.json\<close> wrapped to capture the response (\<open>Capture\<close>) or untouched. \<open>select_ok\<close>
  is whether the lookup query succeeds: its error is caught and the request goes on
  without idempotency.
\<close>

datatype lookup_result =
    Reply response bool
  | Capture string "string option" string
  | Pass

definition idempotency_lookup ::
  "bool \<Rightarrow> (string \<Rightarrow> string) \<Rightarrow> bool \<Rightarrow> timestamp \<Rightarrow> request \<Rightarrow> idempotency_keys \<Rightarrow> lookup_result" where
  "idempotency_lookup required trim select_ok now req tbl =
     (case key_header req of
        None \<Rightarrow>
          if required then
            Reply (respond 400 [(''error'', String ''Idempotency key required''),
                                (''message'', String ''Please provide an Idempotency-Key header'')]) False
          else Pass
      | Some header \<Rightarrow>
          if header = [] then
            (if required then
               Reply (respond 400 [(''error'', String ''Idempotency key required''),
                                   (''message'', String ''Please provide an Idempotency-Key header'')]) False
             else Pass)
          else
            (case validate_idempotency_key trim header of
               Inl err \<Rightarrow>
                 Reply (respond 400 [(''error'', String ''Invalid idempotency key''),
                                     (''message'', String err)]) False
             | Inr key \<Rightarrow>
                 if \<not> select_ok then Pass
                 else
                   (case select_existing tbl key (request_user_id req) (request_endpoint req) now of
                      Some cached \<Rightarrow>
                        Reply \<lparr>status = response_status cached, body = response_body cached\<rparr> True
                    | None \<Rightarrow> Capture key (request_user_id req) (request_endpoint req))))"

text \<open>
  The wrapped \<^verbatim>\<open>res.json\<close>, called by the handler with its response at the time \<open>now\<close>:
  a response below 500 is stored; the error of a failed insert (\<open>insert_ok\<close>) is caught.
  The response is sent either way.
\<close>

definition idempotency_capture ::
  "bool \<Rightarrow> timestamp \<Rightarrow> lookup_result \<Rightarrow> response \<Rightarrow> idempotency_keys \<Rightarrow> idempotency_keys" where
  "idempotency_capture insert_ok now ticket res tbl =
     (case ticket of
        Capture key user_id endpoint' \<Rightarrow>
          if status res < 500 \<and> insert_ok
          then insert_response tbl key user_id endpoint' (status res) (body res) now
          else tbl
      | _ \<Rightarrow> tbl)"

text \<open>
  One request served from beginning to end. A handler is a function on the state of the
  application that returns its response; \<open>now\<close> is the time of the lookup and \<open>later\<close> the
  time of the handler's response.
\<close>

record 'w served =
  reply :: response
  replayed :: bool
  executed :: bool
  keys_after :: idempotency_keys
  world_after :: 'w

definition idempotency ::
  "bool \<Rightarrow> (string \<Rightarrow> string) \<Rightarrow> bool \<Rightarrow> bool \<Rightarrow> timestamp \<Rightarrow> timestamp \<Rightarrow> request
     \<Rightarrow> ('w \<Rightarrow> response \<times> 'w) \<Rightarrow> idempotency_keys \<Rightarrow> 'w \<Rightarrow> 'w served" where
  "idempotency required trim select_ok insert_ok now later req handler tbl w =
     (case idempotency_lookup required trim select_ok now req tbl of
        Reply res again \<Rightarrow>
          \<lparr>reply = res, replayed = again, executed = False, keys_after = tbl, world_after = w\<rparr>
      | ticket \<Rightarrow>
          (let (res, w') = handler w in
           \<lparr>reply = res, replayed = False, executed = True,
            keys_after = idempotency_capture insert_ok later ticket res tbl, world_after = w'\<rparr>))"


subsection \<open>Example requests and handlers\<close>

text \<open>A trim of ASCII white space, for keys that hold no other.\<close>

definition is_space :: "char \<Rightarrow> bool" where
  "is_space c = (c \<in> set [CHR '' '', CHR 0x09, CHR 0x0A, CHR 0x0B, CHR 0x0C, CHR 0x0D])"

definition ascii_trim :: "string \<Rightarrow> string" where
  "ascii_trim s = rev (dropWhile is_space (rev (dropWhile is_space s)))"

text \<open>The state of the application is the log of the handlers' side effects.\<close>

definition register_request :: request where
  "register_request =
     \<lparr>http_method = ''POST'', original_url = ''/api/auth/register'',
      key_header = Some ''retry-key-0001'', caller = None\<rparr>"

definition profile_request :: request where
  "profile_request =
     \<lparr>http_method = ''PATCH'', original_url = ''/api/profile'',
      key_header = Some ''retry-key-0001'', caller = Some ''u-1''\<rparr>"

definition register_handler :: "string list \<Rightarrow> response \<times> string list" where
  "register_handler w =
     (respond 201 [(''message'', String ''Account created successfully'')],
      w @ [''account created''])"

definition profile_handler :: "string list \<Rightarrow> response \<times> string list" where
  "profile_handler w =
     (respond 200 [(''message'', String ''Profile updated''),
                   (''revision'', Number (real (length w)))],
      w @ [''profile updated''])"


section \<open>The authentication routes (routes/auth.js, utils/crypto.js)\<close>

subsection \<open>Passwords and token hashes\<close>

text \<open>
  The functions of the platform and of the database that these routes call: SHA-256 in
  hexadecimal (\<^verbatim>\<open>hash_token\<close>), \<^verbatim>\<open>scrypt\<close> with the module's parameters (\<open>None\<close> when it
  throws), and SQL's \<^verbatim>\<open>LOWER\<close>.
\<close>

record externals =
  sha256_hex :: "string \<Rightarrow> string"
  scrypt :: "string \<Rightarrow> string \<Rightarrow> string option"
  sql_lower :: "string \<Rightarrow> string"

definition hash_token :: "externals \<Rightarrow> string \<Rightarrow> string" where
  "hash_token X token = sha256_hex X token"

text \<open>\<^verbatim>\<open>verify_password\<close>: the key derived from the password and the stored salt is
  compared with the stored hash; an exception is caught and answers \<^verbatim>\<open>false\<close>.\<close>

definition verify_password :: "builtins \<Rightarrow> externals \<Rightarrow> string \<Rightarrow> string \<Rightarrow> string \<Rightarrow> bool" where
  "verify_password B X password stored_hash stored_salt =
     (let salt = buffer_from_base64 B stored_salt;
          expected_hash = buffer_from_base64 B stored_hash
      in case scrypt X password salt of
           None \<Rightarrow> False
         | Some derived_key \<Rightarrow>
             if length derived_key \<noteq> length expected_hash then False
             else derived_key = expected_hash)"

subsection \<open>The tables\<close>

text \<open>A row of \<^verbatim>\<open>users\<close>, as the routes select it: the four columns of \<open>user\<close> and
  these.\<close>

record user_row = user +
  email :: string
  password_hash :: string
  password_salt :: string
  deleted_at :: "timestamp option"
  deleted_by_admin :: bool

text \<open>
  A row of \<^verbatim>\<open>refresh_tokens\<close>. \<^verbatim>\<open>token_hash\<close> is unique, so the table is a map from
  token hashes to rows; \<open>token_id\<close> is the column \<^verbatim>\<open>id\<close>, \<open>token_owner\<close> the column
  \<^verbatim>\<open>user_id\<close>, and the other \<open>token_\<close> fields the columns of the same name without
  the prefix.
\<close>

record refresh_token_row =
  token_id :: string
  token_owner :: string
  token_expires_at :: timestamp
  is_session_only :: bool
  token_created_at :: timestamp
  last_used_at :: "timestamp option"
  token_user_agent :: "string option"
  token_ip_address :: "string option"

record database =
  users :: "user_row list"
  refresh_tokens :: "string \<rightharpoonup> refresh_token_row"
  login_failures :: login_user_table

subsection \<open>Replies\<close>

datatype cookie = Set_Cookie string string cookie_options | Clear_Cookie string

record http_reply = response +
  cookies :: "cookie list"

definition reply_json :: "nat \<Rightarrow> (string \<times> js) list \<Rightarrow> cookie list \<Rightarrow> http_reply" where
  "reply_json code props cs = \<lparr>status = code, body = json_body props, cookies = cs\<rparr>"

text \<open>A date in a body is written as its time value (JSON writes the ISO string of the
  same instant), \<^verbatim>\<open>null\<close> for no date.\<close>

definition js_date :: "timestamp option \<Rightarrow> js" where
  "js_date d = (case d of None \<Rightarrow> Null | Some t \<Rightarrow> Number (real_of_int t))"

subsection \<open>POST /refresh\<close>

text \<open>
  The handler, for the cookie \<^verbatim>\<open>refresh_token\<close> of the request (\<open>None\<close> when there is
  none). \<open>db_up\<close> is whether the store answers: a rejected query, and an exception of the
  token functions, end in the \<^verbatim>\<open>catch\<close> with status 500, after the statements before
  them.
\<close>

definition refresh ::
  "builtins \<Rightarrow> externals \<Rightarrow> jwt_config \<Rightarrow> bool \<Rightarrow> bool \<Rightarrow> timestamp \<Rightarrow> string option \<Rightarrow> database
     \<Rightarrow> http_reply \<times> database" where
  "refresh B X cfg is_prod db_up now refresh_token db =
     (case refresh_token of
        None \<Rightarrow> (reply_json 401 [(''error'', String ''No refresh token'')] [], db)
      | Some token \<Rightarrow>
          if token = [] then (reply_json 401 [(''error'', String ''No refresh token'')] [], db)
          else if \<not> db_up then (reply_json 500 [(''error'', String ''Token refresh failed'')] [], db)
          else
            (let token_hash = hash_token X token;
                 rows =
                   (case refresh_tokens db token_hash of
                      None \<Rightarrow> []
                    | Some rt \<Rightarrow>
                        if token_expires_at rt > now
                        then map (\<lambda>u. (rt, u)) (filter (\<lambda>u. ident u = token_owner rt) (users db))
                        else [])
             in case rows of
                  [] \<Rightarrow>
                    (reply_json 401 [(''error'', String ''Invalid refresh token'')]
                       [Clear_Cookie ''access_token'', Clear_Cookie ''refresh_token''], db)
                | (rt, u) # _ \<Rightarrow>
                    (let db1 = db\<lparr>refresh_tokens :=
                                   (refresh_tokens db)(token_hash \<mapsto> rt\<lparr>last_used_at := Some now\<rparr>)\<rparr>;
                         user' = \<lparr>ident = token_owner rt, username = username u,
                                  is_admin = is_admin u, is_verified = is_verified u\<rparr>
                     in case create_access_token B cfg now user' no_options of
                          Inl err \<Rightarrow>
                            (reply_json 500 [(''error'', String ''Token refresh failed'')] [], db1)
                        | Inr access_token \<Rightarrow>
                            (case get_cookie_options cfg is_prod (is_session_only rt) of
                               Inl err \<Rightarrow>
                                 (reply_json 500 [(''error'', String ''Token refresh failed'')] [], db1)
                             | Inr options \<Rightarrow>
                                 (reply_json 200
                                    [(''message'', String ''Token refreshed''),
                                     (''user'', json_body
                                        [(''id'', String (token_owner rt)),
                                         (''username'', String (username u)),
                                         (''email'', String (email u)),
                                         (''is_admin'', Boolean (is_admin u)),
                                         (''is_verified'', Boolean (is_verified u)),
                                         (''deleted_at'', js_date (deleted_at u))])]
                                    [Set_Cookie ''access_token'' access_token
                                       (options\<lparr>maxAge := Some (15 * 60 * 1000)\<rparr>)],
                                  db1)))))"

subsection \<open>POST /login\<close>

text \<open>
  The body of the request (\<open>None\<close> for a field that is missing), the request's
  \<^verbatim>\<open>User-Agent\<close> and address, and the identifier the database will give to a new row of
  \<^verbatim>\<open>refresh_tokens\<close>.
\<close>

record login_request =
  login_username :: "string option"
  login_password :: "string option"
  stay_logged_in :: bool
  user_agent :: "string option"
  remote_ip :: "string option"
  new_token_id :: string

text \<open>\<^verbatim>\<open>store_refresh_token\<close>: the insert fails (\<open>None\<close>) when the hash is in the table
  already, or when the duration does not parse.\<close>

definition store_refresh_token ::
  "externals \<Rightarrow> jwt_config \<Rightarrow> timestamp \<Rightarrow> login_request \<Rightarrow> string \<Rightarrow> string
     \<Rightarrow> (string \<rightharpoonup> refresh_token_row) \<Rightarrow> (string \<rightharpoonup> refresh_token_row) option" where
  "store_refresh_token X cfg now req owner_id token tbl =
     (let token_hash = hash_token X token in
      case get_expiry_date now (if stay_logged_in req then refresh_expiry cfg else ''24h'') of
        Inl err \<Rightarrow> None
      | Inr expires \<Rightarrow>
          if tbl token_hash \<noteq> None then None
          else Some (tbl(token_hash \<mapsto>
                 \<lparr>token_id = new_token_id req, token_owner = owner_id, token_expires_at = expires,
                  is_session_only = \<not> stay_logged_in req, token_created_at = now,
                  last_used_at = None,
                  token_user_agent =
                    (case user_agent req of None \<Rightarrow> None | Some a \<Rightarrow> if a = [] then None else Some a),
                  token_ip_address =
                    (case remote_ip req of None \<Rightarrow> None | Some a \<Rightarrow> if a = [] then None else Some a)\<rparr>)))"

text \<open>\<^verbatim>\<open>set_auth_cookies\<close>.\<close>

definition set_auth_cookies ::
  "jwt_config \<Rightarrow> bool \<Rightarrow> string \<Rightarrow> string \<Rightarrow> bool \<Rightarrow> js_error + cookie list" where
  "set_auth_cookies cfg is_prod access_token refresh_token stay =
     (case get_cookie_options cfg is_prod (\<not> stay) of
        Inl err \<Rightarrow> Inl err
      | Inr options \<Rightarrow>
          Inr [Set_Cookie ''access_token'' access_token (options\<lparr>maxAge := Some (15 * 60 * 1000)\<rparr>),
               Set_Cookie ''refresh_token'' refresh_token options])"

text \<open>The tokens, the stored refresh token and the cookies of a successful login;
  \<open>Inl\<close> with the database so far when a step throws.\<close>

definition issue_session ::
  "builtins \<Rightarrow> externals \<Rightarrow> jwt_config \<Rightarrow> bool \<Rightarrow> timestamp \<Rightarrow> login_request \<Rightarrow> user_row \<Rightarrow> database
     \<Rightarrow> database + (cookie list \<times> database)" where
  "issue_session B X cfg is_prod now req u db =
     (case create_access_token B cfg now u no_options of
        Inl err \<Rightarrow> Inl db
      | Inr access_token \<Rightarrow>
          (case create_refresh_token B cfg now u (stay_logged_in req) of
             Inl err \<Rightarrow> Inl db
           | Inr refresh_token \<Rightarrow>
               (case store_refresh_token X cfg now req (ident u) refresh_token (refresh_tokens db) of
                  None \<Rightarrow> Inl db
                | Some stored \<Rightarrow>
                    (case set_auth_cookies cfg is_prod access_token refresh_token (stay_logged_in req) of
                       Inl err \<Rightarrow> Inl (db\<lparr>refresh_tokens := stored\<rparr>)
                     | Inr cs \<Rightarrow> Inr (cs, db\<lparr>refresh_tokens := stored\<rparr>)))))"

definition invalid_credentials :: http_reply where
  "invalid_credentials = reply_json 401 [(''error'', String ''Invalid credentials'')] []"

definition login_failed :: http_reply where
  "login_failed = reply_json 500 [(''error'', String ''Login failed'')] []"

definition dummy_hash :: string where
  "dummy_hash = ''dummy_hash_to_prevent_timing_attack''"

definition dummy_salt :: string where
  "dummy_salt = ''dummy_salt''"

text \<open>
  The handler. Its result is the reply, the database it leaves, and the calls of
  \<^verbatim>\<open>verify_password\<close> it has made, each with its password, hash and salt.
\<close>

definition login ::
  "builtins \<Rightarrow> externals \<Rightarrow> jwt_config \<Rightarrow> bool \<Rightarrow> bool \<Rightarrow> timestamp \<Rightarrow> login_request \<Rightarrow> database
     \<Rightarrow> http_reply \<times> database \<times> (string \<times> string \<times> string) list" where
  "login B X cfg is_prod db_up now req db =
     (case (login_username req, login_password req) of
        (Some name, Some password) \<Rightarrow>
          if name = [] \<or> password = [] then
            (reply_json 400 [(''error'', String ''Username and password required'')] [], db, [])
          else if \<not> db_up then (login_failed, db, [])
          else
            (case filter (\<lambda>u. sql_lower X (username u) = sql_lower X name
                               \<or> sql_lower X (email u) = sql_lower X name) (users db) of
               [] \<Rightarrow> (invalid_credentials, db, [(password, dummy_hash, dummy_salt)])
             | u # _ \<Rightarrow>
                 (case check_user_login_block True (ident u) now (login_failures db) of
                    Block_Permanent \<Rightarrow>
                      (reply_json 403
                         [(''error'', String ''Account locked''),
                          (''message'', String ''Too many failed login attempts. Please contact support.'')]
                         [], db, [])
                  | Block_Until t \<Rightarrow>
                      (reply_json 429
                         [(''error'', String ''Account temporarily locked''),
                          (''retry_after'', Number (real_of_int (remaining_seconds (Some t) now)))]
                         [], db, [])
                  | Unblocked \<Rightarrow>
                      if \<not> verify_password B X password (password_hash u) (password_salt u) then
                        (case record_login_failure True (ident u) now (login_failures db) of
                           (Not_Blocked, failures) \<Rightarrow>
                             (invalid_credentials, db\<lparr>login_failures := failures\<rparr>,
                              [(password, password_hash u, password_salt u)])
                         | (failure_result, failures) \<Rightarrow>
                             (reply_json 429
                                [(''error'', String ''Account temporarily locked''),
                                 (''message'', String ''Too many failed login attempts''),
                                 (''retry_after'',
                                    (case failure_result of
                                       Blocked_For d \<Rightarrow> Number (real_of_int d)
                                     | _ \<Rightarrow> Undefined))]
                                [], db\<lparr>login_failures := failures\<rparr>,
                              [(password, password_hash u, password_salt u)]))
                      else
                        (let db1 = db\<lparr>login_failures := reset_login_failures True (ident u) (login_failures db)\<rparr>;
                             calls = [(password, password_hash u, password_salt u)]
                         in if deleted_at u \<noteq> None \<and> \<not> deleted_by_admin u then
                              (case issue_session B X cfg is_prod now req u db1 of
                                 Inl db2 \<Rightarrow> (login_failed, db2, calls)
                               | Inr (cs, db2) \<Rightarrow>
                                   (reply_json 200
                                      [(''message'', String ''Account is deactivated''),
                                       (''code'', String ''ACCOUNT_DELETED''),
                                       (''can_recover'', Boolean True),
                                       (''user'', json_body
                                          [(''id'', String (ident u)),
                                           (''username'', String (username u)),
                                           (''deleted_at'', js_date (deleted_at u))])]
                                      cs, db2, calls))
                            else if deleted_at u \<noteq> None \<and> deleted_by_admin u then
                              (reply_json 403
                                 [(''error'', String ''Account has been deleted''),
                                  (''can_recover'', Boolean False)] [], db1, calls)
                            else
                              (case issue_session B X cfg is_prod now req u db1 of
                                 Inl db2 \<Rightarrow> (login_failed, db2, calls)
                               | Inr (cs, db2) \<Rightarrow>
                                   (reply_json 200
                                      [(''message'', String ''Login successful''),
                                       (''user'', json_body
                                          [(''id'', String (ident u)),
                                           (''username'', String (username u)),
                                           (''email'', String (email u)),
                                           (''is_admin'', Boolean (is_admin u)),
                                           (''is_verified'', Boolean (is_verified u))])]
                                      cs, db2, calls)))))
      | _ \<Rightarrow> (reply_json 400 [(''error'', String ''Username and password required'')] [], db, []))"

subsection \<open>Example users and sessions\<close>

text \<open>Stand-ins for the hash and the key derivation, and a database with one user, whose
  password is \<open>correct horse\<close>, and one refresh token of hers.\<close>

definition example_externals :: externals where
  "example_externals =
     \<lparr>sha256_hex = (\<lambda>token. ''sha256:'' @ token),
      scrypt = (\<lambda>password salt. Some (salt @ password)),
      sql_lower = (\<lambda>s. s)\<rparr>"

definition alice_row :: user_row where
  "alice_row =
     \<lparr>ident = ''0b9f6c1e-7d0a-4c55-9a43-2f6f1f0c8a11'', username = ''alice'',
      is_admin = False, is_verified = True, email = ''alice@example.com'',
      password_hash = buffer_to_base64 (''salt'' @ ''correct horse''),
      password_salt = buffer_to_base64 ''salt'',
      deleted_at = None, deleted_by_admin = False\<rparr>"

definition alice_session :: refresh_token_row where
  "alice_session =
     \<lparr>token_id = ''7a1d0c52-3b7e-4f0a-8d2c-5e9b6a1f4c33'',
      token_owner = ''0b9f6c1e-7d0a-4c55-9a43-2f6f1f0c8a11'',
      token_expires_at = 1700600000000, is_session_only = False,
      token_created_at = 1699900000000, last_used_at = None,
      token_user_agent = Some ''curl/8.0'', token_ip_address = Some ''10.0.0.1''\<rparr>"

definition example_database :: "login_user_table \<Rightarrow> database" where
  "example_database failures =
     \<lparr>users = [alice_row],
      refresh_tokens = Map.empty(''sha256:alice-refresh-token'' \<mapsto> alice_session),
      login_failures = failures\<rparr>"

text \<open>Her failures so far: four, the last one a second before time 1700000000000.\<close>

definition alice_four_failures :: login_user_table where
  "alice_four_failures =
     Map.empty(''0b9f6c1e-7d0a-4c55-9a43-2f6f1f0c8a11'' \<mapsto>
       \<lparr>blocked_until = None, block_count = 0, consecutive_failures = 4,
        last_failure_at = Some 1699999999000\<rparr>)"

definition login_as :: "string \<Rightarrow> string \<Rightarrow> login_request" where
  "login_as name password =
     \<lparr>login_username = Some name, login_password = Some password, stay_logged_in = False,
      user_agent = Some ''curl/8.0'', remote_ip = Some ''10.0.0.1'',
      new_token_id = ''c3d2e1f0-0000-4000-8000-000000000001''\<rparr>"

section \<open>Properties of the rate limiter\<close>

lemma refill_le: "refill r now \<le> login_ip_bucket_size"
  by (simp add: refill_def)

lemma tokens_capped_upsert:
  assumes "tokens_capped tbl"
  shows "tokens_capped (upsert_login_ip tbl ip now)"
  using assms
  by (auto simp: tokens_capped_def upsert_login_ip_def refill_le split: option.splits)

lemma tokens_capped_update_row:
  assumes "tokens_capped tbl" and "\<And>r. tokens r \<le> login_ip_bucket_size \<Longrightarrow> tokens (f r) \<le> login_ip_bucket_size"
  shows "tokens_capped (update_row tbl ip f)"
  using assms
  by (auto simp: tokens_capped_def update_row_def split: option.splits)

lemma tokens_capped_bucket:
  assumes "tokens_capped (ip_table s)"
  shows "tokens_capped (ip_table (snd (login_ip_bucket ip now s)))"
proof -
  have up: "tokens_capped (upsert_login_ip (ip_table s) ip now)"
    using assms by (rule tokens_capped_upsert)
  have perm: "tokens_capped (update_row (upsert_login_ip (ip_table s) ip now) ip block_permanently)"
    by (rule tokens_capped_update_row [OF up]) (simp add: block_permanently_def)
  have temp: "tokens_capped (update_row (upsert_login_ip (ip_table s) ip now) ip (block_for d now))" for d
    by (rule tokens_capped_update_row [OF up]) (simp add: block_for_def)
  have cons: "tokens_capped (update_row (upsert_login_ip (ip_table s) ip now) ip consume_token)"
    by (rule tokens_capped_update_row [OF up]) (simp add: consume_token_def)
  show ?thesis
    using up perm temp cons
    by (simp add: login_ip_bucket_def Let_def split: option.splits block_duration.splits)
qed

lemma ip_table_is_permanently_blocked:
  "ip_table (snd (is_permanently_blocked db_up s ip now)) = ip_table s"
  by (simp add: is_permanently_blocked_def Let_def split: prod.splits option.splits)

lemma tokens_capped_request:
  assumes "tokens_capped (ip_table s)"
  shows "tokens_capped (ip_table (snd (rate_limit_login_ip db_up ip now s)))"
proof (cases "is_permanently_blocked db_up s ip now")
  case (Pair answer s1)
  then have "ip_table s1 = ip_table s"
    using ip_table_is_permanently_blocked [of db_up s ip now] by simp
  then have "tokens_capped (ip_table s1)"
    using assms by simp
  then show ?thesis
    using Pair tokens_capped_bucket [of s1 ip now]
    by (simp add: rate_limit_login_ip_def split: option.splits bool.splits)
qed

lemma tokens_capped_cleanup:
  assumes "tokens_capped tbl"
  shows "tokens_capped (cleanup_login_ip now tbl)"
  using assms
  by (auto simp: tokens_capped_def cleanup_login_ip_def login_ip_bucket_size_def
           split: option.splits if_splits)

lemma tokens_capped_step:
  assumes "tokens_capped (ip_table s)"
  shows "tokens_capped (ip_table (login_ip_step s e))"
  using assms
  by (cases e) (simp_all add: tokens_capped_request tokens_capped_cleanup)

lemma tokens_capped_foldl:
  assumes "tokens_capped (ip_table s)"
  shows "tokens_capped (ip_table (foldl login_ip_step s events))"
  using assms
  by (induction events arbitrary: s) (simp_all add: tokens_capped_step)

text \<open>
  C3. For a block count \<open>n\<close> (a count, so not negative) and any ladder,
  \<^verbatim>\<open>get_block_duration\<close> returns the ladder's entry at \<open>n\<close> below the ladder's length and
  the permanent block from the length on; the registration ladder is one hour, one day
  and one week, the login-by-user ladder five, fifteen and thirty minutes, in seconds.
\<close>

theorem get_block_duration_ladder:
  assumes "0 \<le> n"
  shows "(n < int (length ladder) \<longrightarrow> get_block_duration n ladder = Seconds (ladder ! nat n))
       \<and> (int (length ladder) \<le> n \<longrightarrow> get_block_duration n ladder = Permanent)
       \<and> registration_block_escalation = [3600, 86400, 604800]
       \<and> login_user_block_escalation = [300, 900, 1800]"
  using assms
  by (simp add: get_block_duration_def registration_block_escalation_def
                login_user_block_escalation_def)

theorem get_block_duration_ladder_witness:
  "get_block_duration 1 login_user_block_escalation = Seconds 900
   \<and> get_block_duration 2 registration_block_escalation = Seconds 604800
   \<and> get_block_duration 3 registration_block_escalation = Permanent
   \<and> get_block_duration 7 login_user_block_escalation = Permanent"
proof -
  have a: "get_block_duration 1 login_user_block_escalation = Seconds 900"
    using get_block_duration_ladder [of 1 login_user_block_escalation]
    by (simp add: login_user_block_escalation_def)
  have b: "get_block_duration 2 registration_block_escalation = Seconds 604800"
    using get_block_duration_ladder [of 2 registration_block_escalation]
    by (simp add: registration_block_escalation_def)
  have c: "get_block_duration 3 registration_block_escalation = Permanent"
    using get_block_duration_ladder [of 3 registration_block_escalation]
    by (simp add: registration_block_escalation_def)
  have d: "get_block_duration 7 login_user_block_escalation = Permanent"
    using get_block_duration_ladder [of 7 login_user_block_escalation]
    by (simp add: login_user_block_escalation_def)
  show ?thesis
    by (intro conjI) (rule a b c d)+
qed

text \<open>
  C4. The refill is the old count plus five tokens a minute, capped at the bucket size
  of 5, whatever the time since the last refill; a new row holds 5 tokens; a consumed
  token is one less. So no row of the table ever holds more than 5 tokens, whatever
  requests and sweeps the table has seen.
\<close>

theorem token_bucket_cap:
  "refill r now = min 5 (tokens r + real_of_int (now - last_refill r) / 60000 * 5)
   \<and> refill r now \<le> 5
   \<and> (tbl ip = None \<longrightarrow> map_option tokens (upsert_login_ip tbl ip now ip) = Some 5)
   \<and> tokens (consume_token r) = tokens r - 1
   \<and> tokens_capped (ip_table (login_ip_run events login_ip_initial))
   \<and> login_ip_bucket_size = 5"
proof -
  have "tokens_capped (ip_table login_ip_initial)"
    by (simp add: tokens_capped_def login_ip_initial_def)
  then have run: "tokens_capped (ip_table (login_ip_run events login_ip_initial))"
    unfolding login_ip_run_def by (rule tokens_capped_foldl)
  have amount: "refill r now = min 5 (tokens r + real_of_int (now - last_refill r) / 60000 * 5)"
    by (simp add: refill_def login_ip_bucket_size_def)
  have cap: "refill r now \<le> 5"
    using refill_le [of r now] by (simp add: login_ip_bucket_size_def)
  have ins: "tbl ip = None \<longrightarrow> map_option tokens (upsert_login_ip tbl ip now ip) = Some 5"
    by (simp add: upsert_login_ip_def login_ip_bucket_size_def)
  have cons: "tokens (consume_token r) = tokens r - 1"
    by (simp add: consume_token_def)
  have size: "login_ip_bucket_size = 5"
    by (simp add: login_ip_bucket_size_def)
  show ?thesis
    by (intro conjI) (rule amount cap ins cons run size)+
qed

theorem token_bucket_cap_witness:
  "map_option tokens (upsert_login_ip Map.empty ''10.0.0.1'' 600000 ''10.0.0.1'') = Some 5
   \<and> refill \<lparr>blocked_until = None, block_count = 0, tokens = 4, last_refill = 0\<rparr> 600000 = 5
   \<and> tokens_capped (ip_table (login_ip_run
         [Request True ''10.0.0.1'' 0, Request True ''10.0.0.1'' 600000, Sweep 700000]
         login_ip_initial))"
proof -
  note cap = token_bucket_cap [where r = "\<lparr>blocked_until = None, block_count = 0, tokens = 4, last_refill = 0\<rparr>"
          and now = 600000 and tbl = Map.empty and ip = "''10.0.0.1''"
          and events = "[Request True ''10.0.0.1'' 0, Request True ''10.0.0.1'' 600000, Sweep 700000]"]
  have a: "map_option tokens (upsert_login_ip Map.empty ''10.0.0.1'' 600000 ''10.0.0.1'') = Some 5"
    using cap [THEN conjunct2, THEN conjunct2, THEN conjunct1] by simp
  have b: "refill \<lparr>blocked_until = None, block_count = 0, tokens = 4, last_refill = 0\<rparr> 600000 = 5"
    using cap [THEN conjunct1] by simp
  have c: "tokens_capped (ip_table (login_ip_run
         [Request True ''10.0.0.1'' 0, Request True ''10.0.0.1'' 600000, Sweep 700000]
         login_ip_initial))"
    using cap by blast
  show ?thesis
    by (intro conjI) (rule a b c)+
qed

text \<open>After those two requests, ten minutes apart, the bucket holds 4 tokens: it was
  refilled to the cap and one token was consumed.\<close>

lemma login_ip_run_example:
  "map_option tokens (ip_table (login_ip_run
         [Request True ''10.0.0.1'' 0, Request True ''10.0.0.1'' 600000, Sweep 700000]
         login_ip_initial) ''10.0.0.1'') = Some 4"
  by (simp add: login_ip_run_def login_ip_initial_def rate_limit_login_ip_def is_permanently_blocked_def
     cache_get_def cache_set_def login_ip_bucket_def upsert_login_ip_def is_currently_blocked_def
     update_row_def consume_token_def cleanup_login_ip_def Let_def login_ip_bucket_size_def refill_def)

text \<open>The upsert of \<^verbatim>\<open>record_login_failure\<close> alone, for a user whose row records a
  previous failure at \<open>t\<close> and a counter below the largest integer.\<close>

lemma upsert_login_failure_row:
  assumes "tbl user_id = Some r" and "last_failure_at r = Some t"
    and "consecutive_failures r < int4_max"
  shows "\<exists>tbl1 r'. upsert_login_failure tbl user_id now = Some tbl1 \<and> tbl1 user_id = Some r'
           \<and> last_failure_at r' = Some now
           \<and> (now - t > interval_minutes 30 \<longrightarrow> consecutive_failures r' = 1)
           \<and> (now - t \<le> interval_minutes 30 \<longrightarrow> consecutive_failures r' = consecutive_failures r + 1)
           \<and> blocked_until r' = blocked_until r \<and> block_count r' = block_count r"
  using assms
  by (auto simp: upsert_login_failure_def count_failure_def)

lemma record_login_failure_overflow:
  assumes "tbl user_id = Some r" and "last_failure_at r = Some t"
    and "now - t \<le> interval_minutes 30" and "consecutive_failures r \<ge> int4_max"
  shows "record_login_failure db_up user_id now tbl = (Not_Blocked, tbl)"
  using assms
  by (auto simp: record_login_failure_def upsert_login_failure_def count_failure_def)

text \<open>
  C5 (as amended). \<^verbatim>\<open>record_login_failure\<close>, with the store up, for a user whose row
  records a previous failure at \<open>t\<close> and a counter below the largest 32-bit integer,
  leaves \<^verbatim>\<open>last_failure_at\<close> at the current time in every case. When more than 30
  minutes have passed since \<open>t\<close> the counter is 1. Otherwise the counter is the previous
  one plus 1 as long as that stays below the threshold of 5; when it reaches the
  threshold a block is applied: a temporary block (block count 0, 1 or 2) clears the
  counter to 0, sets \<^verbatim>\<open>blocked_until\<close> from the ladder and increments the block count;
  with the ladder exhausted the counter stays at the previous one plus 1.
\<close>

theorem record_login_failure_counter:
  assumes row: "tbl user_id = Some r" and last: "last_failure_at r = Some t"
    and range: "consecutive_failures r < int4_max"
  shows "\<exists>r'. snd (record_login_failure True user_id now tbl) user_id = Some r'
     \<and> last_failure_at r' = Some now
     \<and> (now - t > interval_minutes 30 \<longrightarrow> consecutive_failures r' = 1)
     \<and> (now - t \<le> interval_minutes 30 \<and> consecutive_failures r + 1 < 5
          \<longrightarrow> consecutive_failures r' = consecutive_failures r + 1)
     \<and> (now - t \<le> interval_minutes 30 \<and> consecutive_failures r + 1 \<ge> 5
            \<and> 0 \<le> block_count r \<and> block_count r < 3
          \<longrightarrow> consecutive_failures r' = 0
              \<and> blocked_until r' = Some (now + interval_seconds (login_user_block_escalation ! nat (block_count r)))
              \<and> block_count r' = block_count r + 1)
     \<and> (now - t \<le> interval_minutes 30 \<and> consecutive_failures r + 1 \<ge> 5
            \<and> (block_count r < 0 \<or> 3 \<le> block_count r)
          \<longrightarrow> consecutive_failures r' = consecutive_failures r + 1)"
proof (cases "t < now - interval_minutes 30")
  case True
  then have "record_login_failure True user_id now tbl =
      (Not_Blocked, tbl(user_id \<mapsto> r\<lparr>consecutive_failures := 1, last_failure_at := Some now\<rparr>))"
    using row last
    by (simp add: record_login_failure_def upsert_login_failure_def count_failure_def
          login_user_max_consecutive_failures_def)
  then show ?thesis
    using True by simp
next
  case recent: False
  let ?r1 = "r\<lparr>consecutive_failures := consecutive_failures r + 1, last_failure_at := Some now\<rparr>"
  let ?tbl1 = "tbl(user_id \<mapsto> ?r1)"
  have up: "upsert_login_failure tbl user_id now = Some ?tbl1"
    using row last range recent by (simp add: upsert_login_failure_def count_failure_def)
  show ?thesis
  proof (cases "consecutive_failures r + 1 < 5")
    case True
    then have "record_login_failure True user_id now tbl = (Not_Blocked, ?tbl1)"
      using up by (simp add: record_login_failure_def login_user_max_consecutive_failures_def)
    then show ?thesis
      using recent True by simp
  next
    case reached: False
    show ?thesis
    proof (cases "0 \<le> block_count r \<and> block_count r < 3")
      case True
      then have d: "get_block_duration (block_count r) login_user_block_escalation
                    = Seconds (login_user_block_escalation ! nat (block_count r))"
        by (simp add: get_block_duration_def login_user_block_escalation_def)
      have "record_login_failure True user_id now tbl =
          (Blocked_For (login_user_block_escalation ! nat (block_count r)),
           tbl(user_id \<mapsto> (block_for (login_user_block_escalation ! nat (block_count r)) now ?r1)
                               \<lparr>consecutive_failures := 0\<rparr>))"
        using up reached d
        by (simp add: record_login_failure_def login_user_max_consecutive_failures_def update_row_def)
      then show ?thesis
        using recent reached True by (simp add: block_for_def)
    next
      case False
      then have outside: "block_count r < 0 \<or> 3 \<le> block_count r"
        by linarith
      have "snd (record_login_failure True user_id now tbl) = ?tbl1
            \<or> snd (record_login_failure True user_id now tbl) = tbl(user_id \<mapsto> block_permanently ?r1)"
        using up reached outside
        by (auto simp: record_login_failure_def login_user_max_consecutive_failures_def update_row_def
              get_block_duration_def login_user_block_escalation_def)
      then show ?thesis
        using recent reached outside by (auto simp: block_permanently_def)
    qed
  qed
qed

theorem record_login_failure_counter_witness:
  "map_option consecutive_failures
     (snd (record_login_failure True ''u1'' (1000000 + interval_minutes 30 + 1) two_failures) ''u1'') = Some 1
   \<and> map_option consecutive_failures
     (snd (record_login_failure True ''u1'' (1000000 + interval_minutes 30) two_failures) ''u1'') = Some 3
   \<and> map_option last_failure_at
     (snd (record_login_failure True ''u1'' (1000000 + interval_minutes 30) two_failures) ''u1'')
       = Some (Some (1000000 + interval_minutes 30))
   \<and> map_option consecutive_failures
     (snd (record_login_failure True ''u1'' 1001000 four_failures) ''u1'') = Some 0"
proof -
  have row2: "two_failures ''u1'' = Some \<lparr>blocked_until = None, block_count = 0,
       consecutive_failures = 2, last_failure_at = Some 1000000\<rparr>"
    by (simp add: two_failures_def)
  have row4: "four_failures ''u1'' = Some \<lparr>blocked_until = None, block_count = 0,
       consecutive_failures = 4, last_failure_at = Some 1000000\<rparr>"
    by (simp add: four_failures_def)
  have a: "map_option consecutive_failures
     (snd (record_login_failure True ''u1'' (1000000 + interval_minutes 30 + 1) two_failures) ''u1'') = Some 1"
    using row2 record_login_failure_counter [where tbl = two_failures and user_id = "''u1''" and t = 1000000
            and now = "1000000 + interval_minutes 30 + 1"]
    by (auto simp: int4_max_def)
  have b: "map_option consecutive_failures
     (snd (record_login_failure True ''u1'' (1000000 + interval_minutes 30) two_failures) ''u1'') = Some 3"
    using row2 record_login_failure_counter [where tbl = two_failures and user_id = "''u1''" and t = 1000000
            and now = "1000000 + interval_minutes 30"]
    by (auto simp: int4_max_def)
  have c: "map_option last_failure_at
     (snd (record_login_failure True ''u1'' (1000000 + interval_minutes 30) two_failures) ''u1'')
       = Some (Some (1000000 + interval_minutes 30))"
    using row2 record_login_failure_counter [where tbl = two_failures and user_id = "''u1''" and t = 1000000
            and now = "1000000 + interval_minutes 30"]
    by (auto simp: int4_max_def)
  have d: "map_option consecutive_failures
     (snd (record_login_failure True ''u1'' 1001000 four_failures) ''u1'') = Some 0"
    using row4 record_login_failure_counter [where tbl = four_failures and user_id = "''u1''" and t = 1000000
            and now = 1001000]
    by (auto simp: int4_max_def interval_minutes_def)
  show ?thesis
    by (intro conjI) (rule a b c d)+
qed

text \<open>The claim as it was stated fails at the threshold: a fifth failure, one second
  after the fourth, leaves the counter at 0, not at 5, and the function reports a block
  of 300 seconds.\<close>

theorem record_login_failure_counterexample:
  "map_option consecutive_failures
     (snd (record_login_failure True ''u1'' 1001000 four_failures) ''u1'') = Some 0
   \<and> map_option consecutive_failures (four_failures ''u1'') = Some 4
   \<and> map_option last_failure_at (four_failures ''u1'') = Some (Some 1000000)
   \<and> fst (record_login_failure True ''u1'' 1001000 four_failures) = Blocked_For 300"
  by (simp add: record_login_failure_def upsert_login_failure_def count_failure_def four_failures_def
        int4_max_def interval_minutes_def login_user_max_consecutive_failures_def
        get_block_duration_def login_user_block_escalation_def update_row_def block_for_def)

section \<open>Properties of the tokens\<close>

subsection \<open>Base64 and its URL-safe form\<close>

lemma base64_digit_char:
  assumes "i < 64"
  shows "base64_char (base64_digit i)"
  using assms
  by (auto simp: base64_char_def base64_digit_def Let_def)

lemma base64_char_facts:
  assumes "base64_char c"
  shows "c \<noteq> CHR ''=''" and "c \<noteq> CHR ''-''" and "c \<noteq> CHR ''_''" and "c \<noteq> CHR ''.''"
    and "(of_char c :: nat) < 128"
  using assms
  by (auto simp: base64_char_def Let_def)

lemma to_base64_shape:
  "\<exists>digits k. buffer_to_base64 bs = digits @ replicate k (CHR ''='')
      \<and> list_all base64_char digits \<and> k < 4 \<and> (length digits + k) mod 4 = 0"
proof (induction bs rule: buffer_to_base64.induct)
  case (1 a b c rest)
  then obtain digits k where rest: "buffer_to_base64 rest = digits @ replicate k (CHR ''='')"
      "list_all base64_char digits" "k < 4" "(length digits + k) mod 4 = 0"
    by auto
  let ?x = "of_char a :: nat" and ?y = "of_char b :: nat" and ?z = "of_char c :: nat"
  let ?four = "[base64_digit (?x div 4), base64_digit ((?x mod 4) * 16 + ?y div 16),
       base64_digit ((?y mod 16) * 4 + ?z div 64), base64_digit (?z mod 64)]"
  have "?x div 4 < 64" "(?x mod 4) * 16 + ?y div 16 < 64" "(?y mod 16) * 4 + ?z div 64 < 64" "?z mod 64 < 64"
    using nat_of_char_less_256 [of a] nat_of_char_less_256 [of b] nat_of_char_less_256 [of c]
    by linarith+
  then have "list_all base64_char ?four"
    by (simp add: base64_digit_char)
  then have all: "list_all base64_char (?four @ digits)"
    using rest(2) by simp
  have enc: "buffer_to_base64 (a # b # c # rest) = (?four @ digits) @ replicate k (CHR ''='')"
    using rest(1) by (simp add: Let_def)
  have len: "(length (?four @ digits) + k) mod 4 = 0"
    using rest(4) by simp
  show ?case
    by (rule exI [of _ "?four @ digits"], rule exI [of _ k]) (intro conjI enc all len rest(3))
next
  case (2 a b)
  let ?x = "of_char a :: nat" and ?y = "of_char b :: nat"
  let ?three = "[base64_digit (?x div 4), base64_digit ((?x mod 4) * 16 + ?y div 16),
       base64_digit ((?y mod 16) * 4)]"
  have "?x div 4 < 64" "(?x mod 4) * 16 + ?y div 16 < 64" "(?y mod 16) * 4 < 64"
    using nat_of_char_less_256 [of a] nat_of_char_less_256 [of b]
    by linarith+
  then have "list_all base64_char ?three"
    by (simp add: base64_digit_char)
  moreover have "buffer_to_base64 [a, b] = ?three @ replicate 1 (CHR ''='')"
    by (simp add: Let_def)
  ultimately show ?case
    by (intro exI [of _ ?three] exI [of _ 1]) simp
next
  case (3 a)
  let ?x = "of_char a :: nat"
  let ?two = "[base64_digit (?x div 4), base64_digit ((?x mod 4) * 16)]"
  have "?x div 4 < 64" "(?x mod 4) * 16 < 64"
    using nat_of_char_less_256 [of a]
    by linarith+
  then have "list_all base64_char ?two"
    by (simp add: base64_digit_char)
  moreover have "buffer_to_base64 [a] = ?two @ replicate 2 (CHR ''='')"
    by (simp add: Let_def numeral_2_eq_2)
  ultimately show ?case
    by (intro exI [of _ ?two] exI [of _ 2]) simp
next
  case 4
  show ?case
    by (intro exI [of _ "[]"] exI [of _ 0]) simp
qed

lemma js_length_ascii:
  assumes "list_all (\<lambda>c. (of_char c :: nat) < 128) s"
  shows "js_length s = length s"
  using assms
  by (induction s) (simp_all add: js_length_def)

lemma url_unsafe_url_safe:
  assumes "list_all base64_char digits"
  shows "url_unsafe (url_safe digits) = digits"
  using assms
  by (induction digits) (auto simp: url_safe_def url_unsafe_def replace_char_def dest: base64_char_facts)

lemma url_safe_no_pad:
  assumes "list_all base64_char digits"
  shows "filter (\<lambda>c. c \<noteq> CHR ''='') (url_safe (digits @ replicate k (CHR ''=''))) = url_safe digits"
  using assms
  by (induction digits) (auto simp: url_safe_def replace_char_def dest: base64_char_facts)

lemma url_safe_chars:
  assumes "list_all base64_char digits"
  shows "CHR ''.'' \<notin> set (url_safe digits)"
  using assms
  by (induction digits) (auto simp: url_safe_def replace_char_def dest: base64_char_facts)

lemma url_safe_ascii:
  assumes "list_all base64_char digits"
  shows "list_all (\<lambda>c. (of_char c :: nat) < 128) digits"
  using assms
  by (induction digits) (auto dest: base64_char_facts)

lemma pad_step:
  fixes n :: nat
  assumes "n mod 4 \<noteq> 0"
  shows "Suc ((4 - (n + 1) mod 4) mod 4) = (4 - n mod 4) mod 4"
proof -
  have "n mod 4 = 1 \<or> n mod 4 = 2 \<or> n mod 4 = 3"
    using assms by linarith
  moreover have "(n + 1) mod 4 = (n mod 4 + 1) mod 4"
    by (simp add: mod_Suc_eq)
  ultimately show ?thesis
    by auto
qed

lemma restore_padding_eq:
  "restore_padding s = s @ replicate ((4 - js_length s mod 4) mod 4) (CHR ''='')"
proof (induction s rule: restore_padding.induct)
  case (1 base64)
  show ?case
  proof (cases "js_length base64 mod 4 = 0")
    case True
    then show ?thesis
      by (subst restore_padding.simps) simp
  next
    case False
    have "restore_padding base64 = restore_padding (base64 @ ''='')"
      using False by (subst restore_padding.simps) simp
    also have "\<dots> = (base64 @ ''='') @ replicate ((4 - js_length (base64 @ ''='') mod 4) mod 4) (CHR ''='')"
      using 1 [OF False] .
    also have "\<dots> = base64 @ replicate (Suc ((4 - (js_length base64 + 1) mod 4) mod 4)) (CHR ''='')"
      by (simp add: js_length_append js_length_pad)
    also have "\<dots> = base64 @ replicate ((4 - js_length base64 mod 4) mod 4) (CHR ''='')"
      by (simp only: pad_step [OF False])
    finally show ?thesis .
  qed
qed

lemma base64_url_encode_no_dot: "CHR ''.'' \<notin> set (base64_url_encode x)"
proof -
  obtain digits k where shape: "buffer_to_base64 x = digits @ replicate k (CHR ''='')"
      "list_all base64_char digits"
    using to_base64_shape [of x] by auto
  have "base64_url_encode x = url_safe digits"
    using shape by (simp add: base64_url_encode_def url_safe_no_pad)
  then show ?thesis
    using shape(2) by (simp add: url_safe_chars)
qed

lemma split_on_no_sep:
  assumes "sep \<notin> set s"
  shows "split_on sep s = [s]"
  using assms by (induction s) auto

lemma split_on_append:
  assumes "sep \<notin> set a"
  shows "split_on sep (a @ sep # rest) = a # split_on sep rest"
  using assms by (induction a) auto

lemma split_on_three:
  assumes "sep \<notin> set a" and "sep \<notin> set b" and "sep \<notin> set c"
  shows "split_on sep (a @ [sep] @ b @ [sep] @ c) = [a, b, c]"
  using assms by (simp add: split_on_append split_on_no_sep)

lemma pad_count_bounded:
  fixes m k :: nat
  assumes "m < 4" and "k < 4" and "(m + k) mod 4 = 0"
  shows "(4 - m) mod 4 = k"
proof -
  have "m + k = 0 \<or> m + k = 4"
  proof (cases "m + k < 4")
    case True
    then show ?thesis using assms(3) by simp
  next
    case False
    then have "(m + k) mod 4 = m + k - 4"
      using assms(1,2) by (simp add: mod_if)
    then show ?thesis using assms(3) False by linarith
  qed
  then show ?thesis
    using assms(1,2) by (auto simp: mod_if)
qed

lemma pad_count:
  fixes n k :: nat
  assumes "k < 4" and "(n + k) mod 4 = 0"
  shows "(4 - n mod 4) mod 4 = k"
proof (rule pad_count_bounded)
  show "n mod 4 < 4"
    by simp
  show "k < 4"
    by (rule assms(1))
  show "(n mod 4 + k) mod 4 = 0"
    using assms(2) by (simp add: mod_add_left_eq)
qed

lemma base64_url_round_trip:
  "base64_url_decode B (base64_url_encode x) = buffer_from_base64 B (buffer_to_base64 x)"
proof -
  obtain digits k where shape: "buffer_to_base64 x = digits @ replicate k (CHR ''='')"
      "list_all base64_char digits" "k < 4" "(length digits + k) mod 4 = 0"
    using to_base64_shape [of x] by auto
  have enc: "base64_url_encode x = url_safe digits"
    using shape(1,2) by (simp add: base64_url_encode_def url_safe_no_pad)
  have "list_all (\<lambda>c. (of_char c :: nat) < 128) digits"
    using shape(2) by (rule url_safe_ascii)
  then have len: "js_length digits = length digits"
    by (rule js_length_ascii)
  have k: "(4 - length digits mod 4) mod 4 = k"
    using shape(3,4) by (rule pad_count)
  have "restore_padding (url_unsafe (base64_url_encode x)) = restore_padding digits"
    using shape(2) by (simp add: enc url_unsafe_url_safe)
  also have "\<dots> = digits @ replicate k (CHR ''='')"
    by (simp add: restore_padding_eq len k)
  finally show ?thesis
    by (simp add: base64_url_decode_def shape(1))
qed

text \<open>The strict decoder inverts the encoder.\<close>

lemma base64_value_digit:
  assumes "i < 64"
  shows "base64_value (base64_digit i) = i"
  using assms
  by (auto simp: base64_value_def base64_digit_def Let_def)

lemma sextets:
  fixes x y z :: nat
  assumes "x < 256" and "y < 256" and "z < 256"
  shows "(x div 4) * 4 + ((x mod 4) * 16 + y div 16) div 16 = x"
    and "(((x mod 4) * 16 + y div 16) mod 16) * 16 + ((y mod 16) * 4 + z div 64) div 4 = y"
    and "(((y mod 16) * 4 + z div 64) mod 4) * 64 + z mod 64 = z"
    and "(((x mod 4) * 16 + y div 16) mod 16) * 16 + ((y mod 16) * 4) div 4 = y"
    and "(x div 4) * 4 + ((x mod 4) * 16) div 16 = x"
proof -
  have a: "y div 16 < 16" "z div 64 < 4"
    using assms by linarith+
  show "(x div 4) * 4 + ((x mod 4) * 16 + y div 16) div 16 = x"
    using a by simp
  show "(((x mod 4) * 16 + y div 16) mod 16) * 16 + ((y mod 16) * 4 + z div 64) div 4 = y"
    using a by simp
  show "(((y mod 16) * 4 + z div 64) mod 4) * 64 + z mod 64 = z"
    using a by simp
  show "(((x mod 4) * 16 + y div 16) mod 16) * 16 + ((y mod 16) * 4) div 4 = y"
    using a by simp
  show "(x div 4) * 4 + ((x mod 4) * 16) div 16 = x"
    by simp
qed

lemma base64_digit_not_pad:
  assumes "i < 64"
  shows "base64_digit i \<noteq> CHR ''=''"
  using base64_digit_char [OF assms] base64_char_facts(1) by blast

lemma base64_decode_encode: "base64_decode (buffer_to_base64 bs) = bs"
proof (induction bs rule: buffer_to_base64.induct)
  case (1 a b c rest)
  let ?x = "of_char a :: nat" and ?y = "of_char b :: nat" and ?z = "of_char c :: nat"
  have lt: "?x div 4 < 64" "(?x mod 4) * 16 + ?y div 16 < 64" "(?y mod 16) * 4 + ?z div 64 < 64" "?z mod 64 < 64"
    using nat_of_char_less_256 [of a] nat_of_char_less_256 [of b] nat_of_char_less_256 [of c]
    by linarith+
  have ne: "base64_digit ((?y mod 16) * 4 + ?z div 64) \<noteq> CHR ''=''" "base64_digit (?z mod 64) \<noteq> CHR ''=''"
    by (simp_all add: base64_digit_not_pad lt)
  show ?case
    using 1 ne lt sextets [of ?x ?y ?z]
    by (simp add: Let_def base64_value_digit)
next
  case (2 a b)
  let ?x = "of_char a :: nat" and ?y = "of_char b :: nat"
  have lt: "?x div 4 < 64" "(?x mod 4) * 16 + ?y div 16 < 64" "(?y mod 16) * 4 < 64"
    using nat_of_char_less_256 [of a] nat_of_char_less_256 [of b]
    by linarith+
  have ne: "base64_digit ((?y mod 16) * 4) \<noteq> CHR ''=''"
    by (simp_all add: base64_digit_not_pad lt)
  show ?case
    using ne lt sextets [of ?x ?y 0]
    by (simp add: Let_def base64_value_digit)
next
  case (3 a)
  let ?x = "of_char a :: nat"
  have lt: "?x div 4 < 64" "(?x mod 4) * 16 < 64"
    using nat_of_char_less_256 [of a]
    by linarith+
  show ?case
    using lt sextets [of ?x 0 0]
    by (simp add: Let_def base64_value_digit)
next
  case 4
  show ?case by simp
qed

subsection \<open>Issuing and verifying\<close>

lemma access_payload_full:
  "full_payload (access_payload u options) now ttl =
     (if is_impersonation options then
        [(''sub'', String (ident u)), (''username'', String (username u)),
         (''is_admin'', Boolean (is_admin u)), (''is_verified'', Boolean (is_verified u)),
         (''type'', String ''access''), (''is_impersonation'', Boolean True),
         (''admin_id'', admin_id options),
         (''iat'', Number (real_of_int (now div 1000))),
         (''exp'', Number (real_of_int ((now + ttl) div 1000)))]
      else
        [(''sub'', String (ident u)), (''username'', String (username u)),
         (''is_admin'', Boolean (is_admin u)), (''is_verified'', Boolean (is_verified u)),
         (''type'', String ''access''),
         (''iat'', Number (real_of_int (now div 1000))),
         (''exp'', Number (real_of_int ((now + ttl) div 1000)))])"
  by (simp add: full_payload_def access_payload_def)

lemma parse_duration_nonempty:
  assumes "parse_duration d = Inr ttl"
  shows "d \<noteq> []"
  using assms by (auto simp: parse_duration_def)

lemma create_jwt_token:
  assumes "parse_duration d = Inr ttl"
  shows "create_jwt B cfg now payload (Some d) =
     Inr (base64_url_encode (json_stringify B jwt_header) @ ''.'' @
          base64_url_encode (json_stringify B (Object (full_payload payload now ttl))) @ ''.'' @
          create_signature B
            (base64_url_encode (json_stringify B jwt_header) @ ''.'' @
             base64_url_encode (json_stringify B (Object (full_payload payload now ttl))))
            (secret cfg))"
  using assms parse_duration_nonempty [OF assms]
  by (simp add: create_jwt_def Let_def)
lemma verify_jwt_well_signed:
  assumes "CHR ''.'' \<notin> set h" and "CHR ''.'' \<notin> set p"
  shows "verify_jwt B cfg now (String (h @ ''.'' @ p @ ''.'' @ create_signature B (h @ ''.'' @ p) (secret cfg))) =
     (case json_parse B (base64_url_decode B p) of
        None \<Rightarrow> Invalid ''Invalid token''
      | Some payload \<Rightarrow>
          (case get_property payload ''exp'' of
             None \<Rightarrow> Invalid ''Invalid token''
           | Some e \<Rightarrow>
               (case (if truthy e then js_less B e (real_of_int (now div 1000)) else Inr False) of
                  Inl err \<Rightarrow> Invalid ''Invalid token''
                | Inr expired \<Rightarrow> if expired then Invalid ''Token expired'' else Valid payload)))"
proof -
  let ?s = "create_signature B (h @ ''.'' @ p) (secret cfg)"
  have "CHR ''.'' \<notin> set ?s"
    by (simp add: create_signature_def base64_url_encode_no_dot)
  then have split: "split_on (CHR ''.'') (h @ ''.'' @ p @ ''.'' @ ?s) = [h, p, ?s]"
    using assms split_on_three [of "CHR ''.''" h p ?s] by simp
  have sig: "verify_signature B (h @ ''.'' @ p) ?s (secret cfg)"
    by (simp add: verify_signature_def)
  show ?thesis
    using sig split by (simp add: verify_jwt_def del: split_on.simps)
qed

lemma parse_duration_15m: "parse_duration ''15m'' = Inr 900000"
  by (simp add: parse_duration_def is_digit_def parse_int_def)

lemma parse_duration_7d: "parse_duration ''7d'' = Inr 604800000"
  by (simp add: parse_duration_def is_digit_def parse_int_def)

lemma parse_duration_24h: "parse_duration ''24h'' = Inr 86400000"
  by (simp add: parse_duration_def is_digit_def parse_int_def)

lemma alice_payload_eq:
  "json_body (full_payload (access_payload alice no_options) 1700000000000 900000) = alice_payload"
  by (simp add: access_payload_full json_body_def alice_def no_options_def alice_payload_def)

lemma signed_token_verify:
  "verify_jwt B cfg now (String (signed_token B cfg payload)) =
     (case json_parse B (buffer_from_base64 B (buffer_to_base64 (json_stringify B payload))) of
        None \<Rightarrow> Invalid ''Invalid token''
      | Some v \<Rightarrow>
          (case get_property v ''exp'' of
             None \<Rightarrow> Invalid ''Invalid token''
           | Some e \<Rightarrow>
               (case (if truthy e then js_less B e (real_of_int (now div 1000)) else Inr False) of
                  Inl err \<Rightarrow> Invalid ''Invalid token''
                | Inr expired \<Rightarrow> if expired then Invalid ''Token expired'' else Valid v)))"
  using verify_jwt_well_signed [of "base64_url_encode (json_stringify B jwt_header)"
          "base64_url_encode (json_stringify B payload)" B cfg now]
  by (simp add: signed_token_def Let_def base64_url_encode_no_dot base64_url_round_trip)

lemma example_codec:
  "json_parse (example_builtins (v # known))
     (buffer_from_base64 (example_builtins (v # known))
        (buffer_to_base64 (json_stringify (example_builtins (v # known)) v))) = Some v"
  by (simp add: example_builtins_def base64_decode_encode json_parse_known_def)

text \<open>
  C6. For every user and all options, with a configured access lifetime that
  \<^verbatim>\<open>parse_duration\<close> accepts: \<^verbatim>\<open>create_access_token\<close> returns a token, and \<^verbatim>\<open>verify_jwt\<close>,
  at any time up to the lifetime after issuing, returns \<^verbatim>\<open>valid: true\<close> with a payload
  that holds every claim the token was issued with, unchanged: \<^verbatim>\<open>sub\<close>, \<^verbatim>\<open>username\<close>,
  \<^verbatim>\<open>is_admin\<close>, \<^verbatim>\<open>is_verified\<close>, \<^verbatim>\<open>type\<close>, and \<^verbatim>\<open>is_impersonation\<close> and \<^verbatim>\<open>admin_id\<close>
  when the options ask for them. The one assumption on the platform is that decoding and
  parsing the encoded JSON text of the payload gives the payload back.
\<close>

theorem access_token_round_trip:
  fixes u :: "'a user_scheme"
  assumes expiry: "parse_duration (access_expiry cfg) = Inr ttl"
    and codec: "json_parse B (buffer_from_base64 B (buffer_to_base64
                  (json_stringify B (Object (full_payload (access_payload u options) now ttl)))))
                = Some (json_body (full_payload (access_payload u options) now ttl))"
    and fresh: "now' \<le> now + ttl"
  shows "\<exists>token payload.
           create_access_token B cfg now u options = Inr token
         \<and> payload = json_body (full_payload (access_payload u options) now ttl)
         \<and> verify_jwt B cfg now' (String token) = Valid payload
         \<and> get_property payload ''sub'' = Some (String (ident u))
         \<and> get_property payload ''username'' = Some (String (username u))
         \<and> get_property payload ''is_admin'' = Some (Boolean (is_admin u))
         \<and> get_property payload ''is_verified'' = Some (Boolean (is_verified u))
         \<and> get_property payload ''type'' = Some (String ''access'')
         \<and> get_property payload ''is_impersonation''
               = Some (if is_impersonation options then Boolean True else Undefined)
         \<and> get_property payload ''admin_id''
               = Some (if is_impersonation options then admin_id options else Undefined)"
proof -
  let ?fp = "full_payload (access_payload u options) now ttl"
  let ?h = "base64_url_encode (json_stringify B jwt_header)"
  let ?p = "base64_url_encode (json_stringify B (Object ?fp))"
  let ?token = "?h @ ''.'' @ ?p @ ''.'' @ create_signature B (?h @ ''.'' @ ?p) (secret cfg)"
  have token: "create_access_token B cfg now u options = Inr ?token"
    unfolding create_access_token_def by (rule create_jwt_token [OF expiry])
  have decoded: "json_parse B (base64_url_decode B ?p) = Some (json_body ?fp)"
    using codec by (simp add: base64_url_round_trip)
  have exp_claim: "get_property (json_body ?fp) ''exp'' = Some (Number (real_of_int ((now + ttl) div 1000)))"
    by (simp add: access_payload_full json_body_def)
  have "now' div 1000 \<le> (now + ttl) div 1000"
    using fresh by (rule zdiv_mono1) simp
  then have not_expired: "js_less B (Number (real_of_int ((now + ttl) div 1000))) (real_of_int (now' div 1000))
                            = Inr False"
    by (simp add: js_less_def)
  have verified: "verify_jwt B cfg now' (String ?token) = Valid (json_body ?fp)"
    using verify_jwt_well_signed [of ?h ?p B cfg now'] decoded exp_claim not_expired
    by (simp add: base64_url_encode_no_dot)
  have claims:
    "get_property (json_body ?fp) ''sub'' = Some (String (ident u))"
    "get_property (json_body ?fp) ''username'' = Some (String (username u))"
    "get_property (json_body ?fp) ''is_admin'' = Some (Boolean (is_admin u))"
    "get_property (json_body ?fp) ''is_verified'' = Some (Boolean (is_verified u))"
    "get_property (json_body ?fp) ''type'' = Some (String ''access'')"
    "get_property (json_body ?fp) ''is_impersonation''
       = Some (if is_impersonation options then Boolean True else Undefined)"
    "get_property (json_body ?fp) ''admin_id''
       = Some (if is_impersonation options then admin_id options else Undefined)"
    by (simp_all add: access_payload_full json_body_def)
  show ?thesis
    by (rule exI [of _ ?token], rule exI [of _ "json_body ?fp"])
       (intro conjI token refl verified claims)
qed

theorem access_token_round_trip_witness:
  "\<exists>token. create_access_token (example_builtins [alice_payload]) default_jwt_config 1700000000000
              alice no_options = Inr token
         \<and> verify_jwt (example_builtins [alice_payload]) default_jwt_config 1700000600000 (String token)
              = Valid alice_payload"
proof -
  let ?B = "example_builtins [alice_payload]"
  have expiry: "parse_duration (access_expiry default_jwt_config) = Inr 900000"
    by (simp add: default_jwt_config_def parse_duration_15m)
  have object: "Object (full_payload (access_payload alice no_options) 1700000000000 900000) = alice_payload"
    by (simp add: access_payload_full alice_def no_options_def alice_payload_def)
  have codec: "json_parse ?B (buffer_from_base64 ?B (buffer_to_base64
                  (json_stringify ?B (Object (full_payload (access_payload alice no_options) 1700000000000 900000)))))
                = Some (json_body (full_payload (access_payload alice no_options) 1700000000000 900000))"
    unfolding object alice_payload_eq by (rule example_codec)
  have fresh: "(1700000600000 :: int) \<le> 1700000000000 + 900000"
    by simp
  from access_token_round_trip [OF expiry codec fresh]
  show ?thesis
    unfolding alice_payload_eq by blast
qed

text \<open>
  C10. A token whose signature verifies and whose payload is an object with no \<^verbatim>\<open>exp\<close>
  claim is valid at every time: \<^verbatim>\<open>payload.exp\<close> is \<^verbatim>\<open>undefined\<close>, so the expiry test is
  skipped.
\<close>

theorem token_without_exp_never_expires:
  assumes "split_on (CHR ''.'') t = [h, p, s]"
    and "verify_signature B (h @ ''.'' @ p) s (secret cfg)"
    and "json_parse B (base64_url_decode B p) = Some (Object props)"
    and "map_of props ''exp'' = None"
  shows "verify_jwt B cfg now (String t) = Valid (Object props)"
proof -
  have "t \<noteq> []"
    using assms(1) by auto
  then show ?thesis
    using assms by (simp add: verify_jwt_def del: split_on.simps)
qed

theorem token_without_exp_never_expires_witness:
  "verify_jwt (example_builtins [payload_without_exp]) default_jwt_config 0
     (String (signed_token (example_builtins [payload_without_exp]) default_jwt_config payload_without_exp))
     = Valid payload_without_exp
   \<and> verify_jwt (example_builtins [payload_without_exp]) default_jwt_config 4102444800000
     (String (signed_token (example_builtins [payload_without_exp]) default_jwt_config payload_without_exp))
     = Valid payload_without_exp"
proof -
  let ?B = "example_builtins [payload_without_exp]"
  let ?cfg = default_jwt_config
  let ?h = "base64_url_encode (json_stringify ?B jwt_header)"
  let ?p = "base64_url_encode (json_stringify ?B payload_without_exp)"
  let ?s = "create_signature ?B (?h @ ''.'' @ ?p) (secret ?cfg)"
  let ?props = "[(''sub'', String ''u-1''), (''type'', String ''access'')]"
  have token: "signed_token ?B ?cfg payload_without_exp = ?h @ ''.'' @ ?p @ ''.'' @ ?s"
    by (simp add: signed_token_def Let_def)
  have "CHR ''.'' \<notin> set ?s"
    by (simp add: create_signature_def base64_url_encode_no_dot)
  then have split: "split_on (CHR ''.'') (signed_token ?B ?cfg payload_without_exp) = [?h, ?p, ?s]"
    unfolding token
    using split_on_three [of "CHR ''.''" ?h ?p ?s] by (simp add: base64_url_encode_no_dot)
  have sig: "verify_signature ?B (?h @ ''.'' @ ?p) ?s (secret ?cfg)"
    by (simp add: verify_signature_def)
  have parsed: "json_parse ?B (base64_url_decode ?B ?p) = Some (Object ?props)"
    using example_codec [of payload_without_exp "[]"]
    by (simp add: base64_url_round_trip payload_without_exp_def)
  have no_exp: "map_of ?props ''exp'' = None"
    by simp
  have "verify_jwt ?B ?cfg now (String (signed_token ?B ?cfg payload_without_exp)) = Valid (Object ?props)" for now
    by (rule token_without_exp_never_expires [OF split sig parsed no_exp])
  then show ?thesis
    by (simp add: payload_without_exp_def)
qed

subsection \<open>What \<^verbatim>\<open>verify_jwt\<close> returns\<close>

text \<open>
  \<^verbatim>\<open>verify_jwt\<close> returns a tagged result for every value: \<^verbatim>\<open>Token is required\<close> for
  what is not a non-empty string, \<^verbatim>\<open>Invalid token format\<close> for a string that does not
  split into three segments, \<^verbatim>\<open>Invalid signature\<close> when the third segment is not the
  signature of the first two, \<^verbatim>\<open>Invalid token\<close> when the payload does not parse (or is
  \<^verbatim>\<open>null\<close>, or its \<^verbatim>\<open>exp\<close> cannot be compared), and \<^verbatim>\<open>Token expired\<close> for a non-zero
  \<^verbatim>\<open>exp\<close> below the current time.
\<close>

lemma verify_signature_iff:
  "verify_signature B data signature key \<longleftrightarrow> signature = create_signature B data key"
  by (auto simp: verify_signature_def Let_def)

lemma verify_jwt_not_a_string:
  assumes "\<forall>t. token \<noteq> String t \<or> t = []"
  shows "verify_jwt B cfg now token = Invalid ''Token is required''"
  using assms by (cases token) (simp_all add: verify_jwt_def)

lemma verify_jwt_wrong_segments:
  assumes "t \<noteq> []" and "length (split_on (CHR ''.'') t) \<noteq> 3"
  shows "verify_jwt B cfg now (String t) = Invalid ''Invalid token format''"
proof -
  have "\<And>a b c. split_on (CHR ''.'') t \<noteq> [a, b, c]"
    using assms(2) by auto
  then show ?thesis
    using assms(1) by (simp add: verify_jwt_def split: list.splits del: split_on.simps)
qed

lemma verify_jwt_signature_mismatch:
  assumes "split_on (CHR ''.'') t = [h, p, s]"
    and "s \<noteq> create_signature B (h @ ''.'' @ p) (secret cfg)"
  shows "verify_jwt B cfg now (String t) = Invalid ''Invalid signature''"
proof -
  have "t \<noteq> []"
    using assms(1) by auto
  then show ?thesis
    using assms by (simp add: verify_jwt_def verify_signature_iff del: split_on.simps)
qed

lemma verify_jwt_undecodable:
  assumes "split_on (CHR ''.'') t = [h, p, s]"
    and "s = create_signature B (h @ ''.'' @ p) (secret cfg)"
    and "json_parse B (base64_url_decode B p) = None \<or> json_parse B (base64_url_decode B p) = Some Null"
  shows "verify_jwt B cfg now (String t) = Invalid ''Invalid token''"
proof -
  have "t \<noteq> []"
    using assms(1) by auto
  then show ?thesis
    using assms by (auto simp: verify_jwt_def verify_signature_iff simp del: split_on.simps)
qed

lemma verify_jwt_expired:
  assumes "split_on (CHR ''.'') t = [h, p, s]"
    and "s = create_signature B (h @ ''.'' @ p) (secret cfg)"
    and "json_parse B (base64_url_decode B p) = Some payload"
    and "get_property payload ''exp'' = Some (Number x)"
    and "x \<noteq> 0" and "x < real_of_int (now div 1000)"
  shows "verify_jwt B cfg now (String t) = Invalid ''Token expired''"
proof -
  have "t \<noteq> []"
    using assms(1) by auto
  then show ?thesis
    using assms by (simp add: verify_jwt_def verify_signature_iff js_less_def del: split_on.simps)
qed

lemma verify_jwt_incomparable:
  assumes "split_on (CHR ''.'') t = [h, p, s]"
    and "s = create_signature B (h @ ''.'' @ p) (secret cfg)"
    and "json_parse B (base64_url_decode B p) = Some payload"
    and "get_property payload ''exp'' = Some (Object props)"
    and "to_number B (Object props) = Inl TypeError"
  shows "verify_jwt B cfg now (String t) = Invalid ''Invalid token''"
proof -
  have "t \<noteq> []"
    using assms(1) by auto
  then show ?thesis
    using assms by (simp add: verify_jwt_def verify_signature_iff js_less_def del: split_on.simps)
qed

lemma verify_jwt_tagged:
  "(\<exists>payload. verify_jwt B cfg now token = Valid payload)
   \<or> verify_jwt B cfg now token = Invalid ''Token is required''
   \<or> verify_jwt B cfg now token = Invalid ''Invalid token format''
   \<or> verify_jwt B cfg now token = Invalid ''Invalid signature''
   \<or> verify_jwt B cfg now token = Invalid ''Invalid token''
   \<or> verify_jwt B cfg now token = Invalid ''Token expired''"
  by (simp add: verify_jwt_def split: js.splits list.splits option.splits sum.splits del: split_on.simps)

text \<open>
  C7. The expiry test is \<^verbatim>\<open>payload.exp && payload.exp < now\<close>, and \<open>0\<close> is falsy: a
  token whose \<^verbatim>\<open>exp\<close> is the epoch, which is in the past at every time the server runs,
  is not rejected. Here such a token, signed with the configured secret, is verified at
  time 1700000000000 and found valid.
\<close>

theorem exp_zero_accepted:
  "verify_jwt (example_builtins [payload_exp_zero]) default_jwt_config 1700000000000
     (String (signed_token (example_builtins [payload_exp_zero]) default_jwt_config payload_exp_zero))
   = Valid payload_exp_zero"
  by (simp add: signed_token_verify example_codec) (simp add: payload_exp_zero_def)

section \<open>Properties of the idempotency middleware\<close>

text \<open>The table holds at most one row for a key, so at most one for a key, caller and
  endpoint.\<close>

lemma one_row_per_tuple:
  "card {r. tbl key = Some r \<and> owner r = user_id \<and> endpoint r = endpoint'} \<le> 1"
proof (cases "tbl key")
  case None
  then show ?thesis by simp
next
  case (Some row)
  then have "{r. tbl key = Some r \<and> owner r = user_id \<and> endpoint r = endpoint'} \<subseteq> {row}"
    by auto
  then have "card {r. tbl key = Some r \<and> owner r = user_id \<and> endpoint r = endpoint'} \<le> card {row}"
    by (intro card_mono) simp_all
  then show ?thesis by simp
qed

lemma lookup_capture:
  assumes "idempotency_lookup required trim select_ok now req tbl = Capture key user_id endpoint'"
  shows "\<exists>header. key_header req = Some header \<and> header \<noteq> []
           \<and> validate_idempotency_key trim header = Inr key
           \<and> user_id = request_user_id req \<and> endpoint' = request_endpoint req
           \<and> select_ok
           \<and> select_existing tbl key user_id endpoint' now = None"
  using assms
  by (auto simp: idempotency_lookup_def split: option.splits if_splits sum.splits)
lemma idempotent_replay:
  assumes miss: "idempotency_lookup required trim True now req tbl = Capture key user_id endpoint'"
    and own: "tbl key = None \<or> (\<exists>r. tbl key = Some r \<and> owner r = user_id \<and> endpoint r = endpoint')"
    and handled: "handler w = (res, w1)" and stored: "status res < 500"
    and window: "again < later + interval_hours 24"
  shows "idempotency required trim True insert_ok' again later' req handler'
           (keys_after (idempotency required trim True True now later req handler tbl w)) w1
         = \<lparr>reply = res, replayed = True, executed = False,
            keys_after = keys_after (idempotency required trim True True now later req handler tbl w),
            world_after = w1\<rparr>"
proof -
  obtain header where req: "key_header req = Some header" "header \<noteq> []"
      "validate_idempotency_key trim header = Inr key"
      "user_id = request_user_id req" "endpoint' = request_endpoint req"
    using lookup_capture [OF miss] by blast
  let ?tbl1 = "insert_response tbl key user_id endpoint' (status res) (body res) later"
  have first: "keys_after (idempotency required trim True True now later req handler tbl w) = ?tbl1"
    using miss handled stored by (simp add: idempotency_def idempotency_capture_def)
  have row: "select_existing ?tbl1 key user_id endpoint' again
               = Some (the (?tbl1 key))"
    using own window by (auto simp: select_existing_def insert_response_def)
  have sent: "response_status (the (?tbl1 key)) = status res" "response_body (the (?tbl1 key)) = body res"
    by (auto simp: insert_response_def split: option.splits)
  have "idempotency_lookup required trim True again req ?tbl1 = Reply res True"
    using req row sent by (simp add: idempotency_lookup_def)
  then have "idempotency required trim True insert_ok' again later' req handler' ?tbl1 w1
         = \<lparr>reply = res, replayed = True, executed = False, keys_after = ?tbl1, world_after = w1\<rparr>"
    by (simp add: idempotency_def)
  then show ?thesis
    unfolding first .
qed

text \<open>
  C1. The lookup is by key, caller and endpoint, but the insert resolves a conflict on the
  key alone and leaves the row's caller and endpoint as they were. So when a key that
  holds the response of one endpoint is used on another, the second endpoint's response
  overwrites the first's and is never found again under the second's name. Here a key is
  used for a registration (anonymous) and then twice for a profile update by user
  \<open>u-1\<close>, all within five seconds: the second profile update runs its handler again
  instead of replaying, and a retry of the registration receives the profile update's
  response. (Without such a reuse the replay is as claimed: \<open>idempotent_replay\<close>.)
\<close>

theorem idempotency_key_reuse:
  "(let s1 = idempotency True ascii_trim True True 1000 1005 register_request register_handler Map.empty [];
        s2 = idempotency True ascii_trim True True 2000 2005 profile_request profile_handler
               (keys_after s1) (world_after s1);
        s3 = idempotency True ascii_trim True True 3000 3005 profile_request profile_handler
               (keys_after s2) (world_after s2);
        s4 = idempotency True ascii_trim True True 4000 4005 register_request register_handler
               (keys_after s3) (world_after s3)
    in executed s1 \<and> status (reply s1) = 201
       \<and> executed s2 \<and> \<not> replayed s2
       \<and> executed s3 \<and> \<not> replayed s3
       \<and> world_after s3 = [''account created'', ''profile updated'', ''profile updated'']
       \<and> reply s3 \<noteq> reply s2
       \<and> replayed s4 \<and> \<not> executed s4 \<and> reply s4 = reply s3 \<and> reply s4 \<noteq> reply s1)"
  by (simp add: idempotency_def idempotency_lookup_def idempotency_capture_def
        validate_idempotency_key_def ascii_trim_def is_space_def js_length_def is_key_char_def
        select_existing_def insert_response_def request_endpoint_def request_user_id_def
        register_request_def profile_request_def register_handler_def profile_handler_def
        respond_def json_body_def interval_hours_def Let_def)




section \<open>Properties of the authentication routes\<close>

text \<open>
  C8. POST /refresh with the cookie of a refresh token whose row exists, has not expired
  and belongs to a user, under a configuration whose durations parse and with the store
  up: the reply is 200, its only cookie is a new access token for that user (no refresh
  token is set), and the database is the one before with \<^verbatim>\<open>last_used_at\<close> of the matching
  row set to the current time: every other field of that row, every other row of
  \<^verbatim>\<open>refresh_tokens\<close> and every other table is unchanged.
\<close>

theorem refresh_touches_last_used:
  assumes cookie: "token \<noteq> []"
    and row: "refresh_tokens db (hash_token X token) = Some rt"
    and unexpired: "token_expires_at rt > now"
    and joined: "filter (\<lambda>u. ident u = token_owner rt) (users db) = u # others"
    and access: "parse_duration (access_expiry cfg) = Inr ttl"
    and cookie_age: "is_session_only rt \<or> (\<exists>ms. parse_duration (refresh_expiry cfg) = Inr ms)"
  shows "\<exists>access_token options.
           create_access_token B cfg now
             \<lparr>ident = token_owner rt, username = username u, is_admin = is_admin u,
              is_verified = is_verified u\<rparr> no_options = Inr access_token
         \<and> maxAge options = Some 900000
         \<and> refresh B X cfg is_prod True now (Some token) db =
             (\<lparr>status = 200,
               body = json_body
                  [(''message'', String ''Token refreshed''),
                   (''user'', json_body
                      [(''id'', String (token_owner rt)),
                       (''username'', String (username u)),
                       (''email'', String (email u)),
                       (''is_admin'', Boolean (is_admin u)),
                       (''is_verified'', Boolean (is_verified u)),
                       (''deleted_at'', js_date (deleted_at u))])],
               cookies = [Set_Cookie ''access_token'' access_token options]\<rparr>,
              db\<lparr>refresh_tokens :=
                   (refresh_tokens db)(hash_token X token \<mapsto> rt\<lparr>last_used_at := Some now\<rparr>)\<rparr>)"
proof -
  let ?user = "\<lparr>ident = token_owner rt, username = username u, is_admin = is_admin u,
              is_verified = is_verified u\<rparr>"
  obtain access_token where token: "create_access_token B cfg now ?user no_options = Inr access_token"
    unfolding create_access_token_def using create_jwt_token [OF access] by blast
  have "\<exists>options. get_cookie_options cfg is_prod (is_session_only rt) = Inr options"
  proof (cases "is_session_only rt")
    case True
    then show ?thesis
      by (simp add: get_cookie_options_def)
  next
    case False
    then obtain ms where "parse_duration (refresh_expiry cfg) = Inr ms"
      using cookie_age by blast
    then show ?thesis
      using False by (simp add: get_cookie_options_def)
  qed
  then obtain options where options: "get_cookie_options cfg is_prod (is_session_only rt) = Inr options"
    by blast
  have "refresh B X cfg is_prod True now (Some token) db =
             (\<lparr>status = 200,
               body = json_body
                  [(''message'', String ''Token refreshed''),
                   (''user'', json_body
                      [(''id'', String (token_owner rt)),
                       (''username'', String (username u)),
                       (''email'', String (email u)),
                       (''is_admin'', Boolean (is_admin u)),
                       (''is_verified'', Boolean (is_verified u)),
                       (''deleted_at'', js_date (deleted_at u))])],
               cookies = [Set_Cookie ''access_token'' access_token (options\<lparr>maxAge := Some 900000\<rparr>)]\<rparr>,
              db\<lparr>refresh_tokens :=
                   (refresh_tokens db)(hash_token X token \<mapsto> rt\<lparr>last_used_at := Some now\<rparr>)\<rparr>)"
    using cookie row unexpired joined token options
    by (simp add: refresh_def reply_json_def Let_def)
  then show ?thesis
    using token by (intro exI [of _ access_token] exI [of _ "options\<lparr>maxAge := Some 900000\<rparr>"]) simp
qed

theorem refresh_touches_last_used_witness:
  "snd (refresh (example_builtins []) example_externals default_jwt_config False True 1700000000000
          (Some ''alice-refresh-token'') (example_database Map.empty))
     = (example_database Map.empty)
         \<lparr>refresh_tokens := Map.empty(''sha256:alice-refresh-token'' \<mapsto>
              alice_session\<lparr>last_used_at := Some 1700000000000\<rparr>)\<rparr>
   \<and> status (fst (refresh (example_builtins []) example_externals default_jwt_config False True
          1700000000000 (Some ''alice-refresh-token'') (example_database Map.empty))) = 200
   \<and> length (cookies (fst (refresh (example_builtins []) example_externals default_jwt_config False True
          1700000000000 (Some ''alice-refresh-token'') (example_database Map.empty)))) = 1"
proof -
  let ?db = "example_database Map.empty"
  have cookie: "''alice-refresh-token'' \<noteq> []"
    by simp
  have row: "refresh_tokens ?db (hash_token example_externals ''alice-refresh-token'') = Some alice_session"
    by (simp add: example_database_def hash_token_def example_externals_def)
  have unexpired: "token_expires_at alice_session > 1700000000000"
    by (simp add: alice_session_def)
  have joined: "filter (\<lambda>u. ident u = token_owner alice_session) (users ?db) = alice_row # []"
    by (simp add: example_database_def alice_row_def alice_session_def)
  have access: "parse_duration (access_expiry default_jwt_config) = Inr 900000"
    by (simp add: default_jwt_config_def parse_duration_15m)
  have cookie_age: "is_session_only alice_session \<or> (\<exists>ms. parse_duration (refresh_expiry default_jwt_config) = Inr ms)"
    by (simp add: default_jwt_config_def parse_duration_7d)
  from refresh_touches_last_used [OF cookie row unexpired joined access cookie_age,
         of "example_builtins []" False]
  obtain access_token options where
    "refresh (example_builtins []) example_externals default_jwt_config False True 1700000000000
       (Some ''alice-refresh-token'') ?db =
       (\<lparr>status = 200,
         body = json_body
            [(''message'', String ''Token refreshed''),
             (''user'', json_body
                [(''id'', String (token_owner alice_session)),
                 (''username'', String (username alice_row)),
                 (''email'', String (email alice_row)),
                 (''is_admin'', Boolean (is_admin alice_row)),
                 (''is_verified'', Boolean (is_verified alice_row)),
                 (''deleted_at'', js_date (deleted_at alice_row))])],
         cookies = [Set_Cookie ''access_token'' access_token options]\<rparr>,
        ?db\<lparr>refresh_tokens :=
             (refresh_tokens ?db)(hash_token example_externals ''alice-refresh-token'' \<mapsto>
                alice_session\<lparr>last_used_at := Some 1700000000000\<rparr>)\<rparr>)"
    by blast
  then show ?thesis
    by (simp add: example_database_def hash_token_def example_externals_def)
qed

lemma record_login_failure_not_blocked:
  assumes "tbl user_id = None
           \<or> (\<exists>r. tbl user_id = Some r
                 \<and> (consecutive_failures r + 1 < 5
                      \<or> (\<exists>t. last_failure_at r = Some t \<and> t < now - interval_minutes 30)))"
  shows "fst (record_login_failure True user_id now tbl) = Not_Blocked"
  using assms
  by (auto simp: record_login_failure_def upsert_login_failure_def count_failure_def
        login_user_max_consecutive_failures_def split: option.splits)

lemma login_unknown:
  assumes "login_username req = Some name" and "login_password req = Some password"
    and "name \<noteq> []" and "password \<noteq> []"
    and "filter (\<lambda>u. sql_lower X (username u) = sql_lower X name
                       \<or> sql_lower X (email u) = sql_lower X name) (users db) = []"
  shows "login B X cfg is_prod True now req db
           = (invalid_credentials, db, [(password, dummy_hash, dummy_salt)])"
  using assms by (simp add: login_def)

lemma login_wrong_password:
  assumes "login_username req = Some name" and "login_password req = Some password"
    and "name \<noteq> []" and "password \<noteq> []"
    and "filter (\<lambda>u. sql_lower X (username u) = sql_lower X name
                       \<or> sql_lower X (email u) = sql_lower X name) (users db) = u # others"
    and "check_user_login_block True (ident u) now (login_failures db) = Unblocked"
    and "\<not> verify_password B X password (password_hash u) (password_salt u)"
  shows "login B X cfg is_prod True now req db =
           (case record_login_failure True (ident u) now (login_failures db) of
              (Not_Blocked, failures) \<Rightarrow>
                (invalid_credentials, db\<lparr>login_failures := failures\<rparr>,
                 [(password, password_hash u, password_salt u)])
            | (failure_result, failures) \<Rightarrow>
                (reply_json 429
                   [(''error'', String ''Account temporarily locked''),
                    (''message'', String ''Too many failed login attempts''),
                    (''retry_after'',
                       (case failure_result of
                          Blocked_For d \<Rightarrow> Number (real_of_int d)
                        | _ \<Rightarrow> Undefined))]
                   [], db\<lparr>login_failures := failures\<rparr>,
                 [(password, password_hash u, password_salt u)]))"
  using assms by (simp add: login_def)

lemma example_verify_password:
  "verify_password (example_builtins known) example_externals password
     (password_hash alice_row) (password_salt alice_row) \<longleftrightarrow> password = ''correct horse''"
  by (auto simp: verify_password_def example_builtins_def example_externals_def alice_row_def
        base64_decode_encode Let_def simp del: buffer_to_base64.simps)

text \<open>
  C9. Enumeration resistance of POST /login, with the store up. A first attempt names no
  user; a second names a user \<open>u\<close> with a wrong password, while \<open>u\<close> has no active block
  and this failure does not bring the counter to the threshold: \<open>u\<close> has no row of
  failures, or the counter with this failure added stays below
  \<open>login_user_max_consecutive_failures\<close>, or the last failure is more than 30 minutes old
  (the counter restarts at one). Then the two replies are the same: status 401, body
  \<^verbatim>\<open>{error: 'Invalid credentials'}\<close>, no cookie; and the first attempt has made exactly
  one call of \<^verbatim>\<open>verify_password\<close>, on the dummy hash and salt. (A counter below the
  threshold is not enough: see the example after the theorem.)
\<close>

theorem login_enumeration_resistance:
  assumes unknown_request: "login_username req1 = Some name1" "login_password req1 = Some password1"
      "name1 \<noteq> []" "password1 \<noteq> []"
    and known_request: "login_username req2 = Some name2" "login_password req2 = Some password2"
      "name2 \<noteq> []" "password2 \<noteq> []"
    and unknown: "filter (\<lambda>u. sql_lower X (username u) = sql_lower X name1
                       \<or> sql_lower X (email u) = sql_lower X name1) (users db) = []"
    and known: "filter (\<lambda>u. sql_lower X (username u) = sql_lower X name2
                       \<or> sql_lower X (email u) = sql_lower X name2) (users db) = u # others"
    and wrong: "\<not> verify_password B X password2 (password_hash u) (password_salt u)"
    and unblocked: "check_user_login_block True (ident u) now2 (login_failures db) = Unblocked"
    and below: "login_failures db (ident u) = None
           \<or> (\<exists>r. login_failures db (ident u) = Some r
                 \<and> (consecutive_failures r + 1 < login_user_max_consecutive_failures
                      \<or> (\<exists>t. last_failure_at r = Some t \<and> t < now2 - interval_minutes 30)))"
  shows "fst (login B X cfg is_prod True now1 req1 db) = fst (login B X cfg is_prod True now2 req2 db)
       \<and> fst (login B X cfg is_prod True now1 req1 db)
           = \<lparr>status = 401, body = Object [(''error'', String ''Invalid credentials'')], cookies = []\<rparr>
       \<and> snd (snd (login B X cfg is_prod True now1 req1 db)) = [(password1, dummy_hash, dummy_salt)]"
proof -
  have first: "login B X cfg is_prod True now1 req1 db
           = (invalid_credentials, db, [(password1, dummy_hash, dummy_salt)])"
    using unknown_request unknown by (rule login_unknown)
  have "login_failures db (ident u) = None
           \<or> (\<exists>r. login_failures db (ident u) = Some r
                 \<and> (consecutive_failures r + 1 < 5
                      \<or> (\<exists>t. last_failure_at r = Some t \<and> t < now2 - interval_minutes 30)))"
    using below by (simp add: login_user_max_consecutive_failures_def)
  then have "fst (record_login_failure True (ident u) now2 (login_failures db)) = Not_Blocked"
    by (rule record_login_failure_not_blocked)
  then obtain failures where "record_login_failure True (ident u) now2 (login_failures db) = (Not_Blocked, failures)"
    by (cases "record_login_failure True (ident u) now2 (login_failures db)") simp
  then have second: "fst (login B X cfg is_prod True now2 req2 db) = invalid_credentials"
    using login_wrong_password [OF known_request known unblocked wrong, of cfg is_prod]
    by simp
  have reply: "invalid_credentials
           = \<lparr>status = 401, body = Object [(''error'', String ''Invalid credentials'')], cookies = []\<rparr>"
    by (simp add: invalid_credentials_def reply_json_def json_body_def)
  show ?thesis
    using first second reply by simp
qed

theorem login_enumeration_resistance_witness:
  "fst (login (example_builtins []) example_externals default_jwt_config False True 1700000000000
          (login_as ''mallory'' ''wrong password'') (example_database Map.empty))
     = fst (login (example_builtins []) example_externals default_jwt_config False True 1700000000000
          (login_as ''alice'' ''wrong password'') (example_database Map.empty))
   \<and> fst (login (example_builtins []) example_externals default_jwt_config False True 1700000000000
          (login_as ''mallory'' ''wrong password'') (example_database Map.empty))
     = \<lparr>status = 401, body = Object [(''error'', String ''Invalid credentials'')], cookies = []\<rparr>
   \<and> snd (snd (login (example_builtins []) example_externals default_jwt_config False True 1700000000000
          (login_as ''mallory'' ''wrong password'') (example_database Map.empty)))
     = [(''wrong password'', dummy_hash, dummy_salt)]"
proof -
  let ?db = "example_database Map.empty"
  have mallory: "login_username (login_as ''mallory'' ''wrong password'') = Some ''mallory''"
      "login_password (login_as ''mallory'' ''wrong password'') = Some ''wrong password''"
      "''mallory'' \<noteq> []" "''wrong password'' \<noteq> []"
    by (simp_all add: login_as_def)
  have alice: "login_username (login_as ''alice'' ''wrong password'') = Some ''alice''"
      "login_password (login_as ''alice'' ''wrong password'') = Some ''wrong password''"
      "''alice'' \<noteq> []" "''wrong password'' \<noteq> []"
    by (simp_all add: login_as_def)
  have unknown: "filter (\<lambda>u. sql_lower example_externals (username u) = sql_lower example_externals ''mallory''
                       \<or> sql_lower example_externals (email u) = sql_lower example_externals ''mallory'')
                   (users ?db) = []"
    by (simp add: example_database_def example_externals_def alice_row_def)
  have known: "filter (\<lambda>u. sql_lower example_externals (username u) = sql_lower example_externals ''alice''
                       \<or> sql_lower example_externals (email u) = sql_lower example_externals ''alice'')
                   (users ?db) = alice_row # []"
    by (simp add: example_database_def example_externals_def alice_row_def)
  have wrong: "\<not> verify_password (example_builtins []) example_externals ''wrong password''
                    (password_hash alice_row) (password_salt alice_row)"
    by (simp add: example_verify_password)
  have unblocked: "check_user_login_block True (ident alice_row) 1700000000000 (login_failures ?db) = Unblocked"
    by (simp add: check_user_login_block_def example_database_def)
  have below: "login_failures ?db (ident alice_row) = None
           \<or> (\<exists>r. login_failures ?db (ident alice_row) = Some r
                 \<and> (consecutive_failures r + 1 < login_user_max_consecutive_failures
                      \<or> (\<exists>t. last_failure_at r = Some t \<and> t < 1700000000000 - interval_minutes 30)))"
    by (simp add: example_database_def)
  show ?thesis
    by (rule login_enumeration_resistance [OF mallory alice unknown known wrong unblocked below,
          of default_jwt_config False 1700000000000])
qed

text \<open>
  A counter below the threshold does not suffice. Alice has four failures, the last one a
  second ago, and no block; the threshold is five. A wrong password for her is the fifth
  failure: the reply is 429 with \<^verbatim>\<open>retry_after\<close> 300, while an unknown name gets 401.
\<close>

theorem login_enumeration_counterexample:
  "check_user_login_block True (ident alice_row) 1700000000000
       (login_failures (example_database alice_four_failures)) = Unblocked
   \<and> map_option consecutive_failures
       (login_failures (example_database alice_four_failures) (ident alice_row)) = Some 4
   \<and> 4 < login_user_max_consecutive_failures
   \<and> status (fst (login (example_builtins []) example_externals default_jwt_config False True 1700000000000
          (login_as ''mallory'' ''wrong password'') (example_database alice_four_failures))) = 401
   \<and> fst (login (example_builtins []) example_externals default_jwt_config False True 1700000000000
          (login_as ''alice'' ''wrong password'') (example_database alice_four_failures))
     = \<lparr>status = 429,
        body = Object [(''error'', String ''Account temporarily locked''),
                       (''message'', String ''Too many failed login attempts''),
                       (''retry_after'', Number 300)],
        cookies = []\<rparr>"
proof -
  let ?db = "example_database alice_four_failures"
  have row: "login_failures ?db (ident alice_row)
        = Some \<lparr>blocked_until = None, block_count = 0, consecutive_failures = 4,
                last_failure_at = Some 1699999999000\<rparr>"
    by (simp add: example_database_def alice_four_failures_def alice_row_def)
  have unblocked: "check_user_login_block True (ident alice_row) 1700000000000 (login_failures ?db) = Unblocked"
    by (simp add: check_user_login_block_def row)
  have count: "map_option consecutive_failures (login_failures ?db (ident alice_row)) = Some 4"
    by (simp add: row)
  have threshold: "4 < login_user_max_consecutive_failures"
    by (simp add: login_user_max_consecutive_failures_def)
  have mallory: "login_username (login_as ''mallory'' ''wrong password'') = Some ''mallory''"
      "login_password (login_as ''mallory'' ''wrong password'') = Some ''wrong password''"
      "''mallory'' \<noteq> []" "''wrong password'' \<noteq> []"
    by (simp_all add: login_as_def)
  have alice: "login_username (login_as ''alice'' ''wrong password'') = Some ''alice''"
      "login_password (login_as ''alice'' ''wrong password'') = Some ''wrong password''"
      "''alice'' \<noteq> []" "''wrong password'' \<noteq> []"
    by (simp_all add: login_as_def)
  have unknown: "filter (\<lambda>u. sql_lower example_externals (username u) = sql_lower example_externals ''mallory''
                       \<or> sql_lower example_externals (email u) = sql_lower example_externals ''mallory'')
                   (users ?db) = []"
    by (simp add: example_database_def example_externals_def alice_row_def)
  have known: "filter (\<lambda>u. sql_lower example_externals (username u) = sql_lower example_externals ''alice''
                       \<or> sql_lower example_externals (email u) = sql_lower example_externals ''alice'')
                   (users ?db) = alice_row # []"
    by (simp add: example_database_def example_externals_def alice_row_def)
  have wrong: "\<not> verify_password (example_builtins []) example_externals ''wrong password''
                    (password_hash alice_row) (password_salt alice_row)"
    by (simp add: example_verify_password)
  have failure: "fst (record_login_failure True (ident alice_row) 1700000000000 (login_failures ?db))
        = Blocked_For 300"
    by (simp add: record_login_failure_def upsert_login_failure_def count_failure_def row
          interval_minutes_def int4_max_def login_user_max_consecutive_failures_def
          login_user_block_escalation_def get_block_duration_def update_row_def)
  have first: "status (fst (login (example_builtins []) example_externals default_jwt_config False True
                  1700000000000 (login_as ''mallory'' ''wrong password'') ?db)) = 401"
    using login_unknown [OF mallory unknown, of "example_builtins []" default_jwt_config False 1700000000000]
    by (simp add: invalid_credentials_def reply_json_def)
  obtain failures where recorded:
      "record_login_failure True (ident alice_row) 1700000000000 (login_failures ?db) = (Blocked_For 300, failures)"
    using failure
    by (cases "record_login_failure True (ident alice_row) 1700000000000 (login_failures ?db)") simp
  have second: "fst (login (example_builtins []) example_externals default_jwt_config False True
                  1700000000000 (login_as ''alice'' ''wrong password'') ?db)
     = \<lparr>status = 429,
        body = Object [(''error'', String ''Account temporarily locked''),
                       (''message'', String ''Too many failed login attempts''),
                       (''retry_after'', Number 300)],
        cookies = []\<rparr>"
    using login_wrong_password [OF alice known unblocked wrong, of default_jwt_config False] recorded
    by (simp add: reply_json_def json_body_def)
  show ?thesis
    by (intro conjI) (rule unblocked count threshold first second)+
qed

end
